theory Spec2Isabelle
  imports Complex_Main
begin

section \<open>Scoring callbacks of skorch: a shallow embedding of \<^verbatim>\<open>skorch/callbacks/scoring.py\<close>\<close>

text \<open>
  The embedding follows the Python source function by function.
  \<^item> A Python exception is a value of \<open>py_error\<close>; a function that may raise returns
    \<open>py_error + 'a\<close> (\<open>Inl\<close> the exception), and a handler (no return value) returns
    \<open>py_error option\<close> (\<open>None\<close> is a normal return) together with every object it was
    able to mutate, since a mutation made before an exception stays in place.
  \<^item> Scores are Python floats. They are modelled as exact reals: rounding, NaN and
    signed zeros are outside the model. The running best additionally takes the two
    infinities \<^verbatim>\<open>np.inf\<close> and \<^verbatim>\<open>-np.inf\<close>.
  \<^item> Type variables: \<open>'x\<close> input data, \<open>'v\<close> tensors (raw targets and predictions),
    \<open>'a\<close> elements of an extracted target array (an array is an \<open>'a list\<close>).
\<close>

subsection \<open>Exceptions and numbers\<close>

datatype py_error =
    KeyError
  | IndexError
  | ValueError
  | AttributeError
  | StopIteration
  | ZeroDivisionError
  | OtherError string

text \<open>\<^verbatim>\<open>np.inf\<close>, \<^verbatim>\<open>-np.inf\<close> and the finite scores, with the strict order of floats.\<close>

datatype ext = MInf | Fin real | PInf

fun ext_less :: "ext \<Rightarrow> ext \<Rightarrow> bool" where
  "ext_less MInf MInf = False"
| "ext_less MInf _ = True"
| "ext_less (Fin a) (Fin b) = (a < b)"
| "ext_less (Fin a) PInf = True"
| "ext_less (Fin a) MInf = False"
| "ext_less PInf _ = False"

subsection \<open>The run history\<close>

text \<open>
  Modelled from the spec: the class \<^verbatim>\<open>skorch.history.History\<close> is not part of the
  source file. The spec's history contract is: (a) record a scalar or boolean under a name
  scoped to the current epoch, (b) record a scalar under a name scoped to the current batch
  of the current epoch, (c) query all recorded batch-level values for a name across the
  current epoch, raising a lookup failure if the name was never recorded this epoch, paired
  with each batch's declared sample count under a size key.
  The history is the list of epochs, the current epoch last; an epoch has its own
  columns and the list of its batches, the current batch last. The spec does not say what
  recording does when there is no current epoch: the model follows Python's
  \<^verbatim>\<open>list[-1]\<close> on an empty list and raises \<open>IndexError\<close>.
\<close>

datatype hval = Num real | Flag bool

record epoch =
  cols :: "string \<rightharpoonup> hval"
  batches :: "(string \<rightharpoonup> real) list"

type_synonym history = "epoch list"

text \<open>Modelled from the spec: \<^verbatim>\<open>history.new_epoch()\<close>, called by the training loop,
  opens the next epoch: the history is append-only and scoped per epoch.\<close>

definition new_epoch :: "history \<Rightarrow> history" where
  "new_epoch h = h @ [\<lparr>cols = Map.empty, batches = []\<rparr>]"

text \<open>Modelled from the spec: \<^verbatim>\<open>history.record(name, value)\<close>, contract (a).\<close>

definition record_epoch :: "history \<Rightarrow> string \<Rightarrow> hval \<Rightarrow> py_error + history" where
  "record_epoch h k v =
     (if h = [] then Inl IndexError
      else Inr (butlast h @ [(last h)\<lparr>cols := (cols (last h))(k \<mapsto> v)\<rparr>]))"

text \<open>Modelled from the spec: \<^verbatim>\<open>history.record_batch(name, value)\<close>, contract (b): the
  value goes into the slot of the current batch. The spec names the failure of the
  recording step, a key-not-found condition while recording (its sections 4.4 and 7): it
  is the \<open>KeyError\<close> raised when the current epoch has no batch slot to record into.\<close>

definition record_batch :: "history \<Rightarrow> string \<Rightarrow> real \<Rightarrow> py_error + history" where
  "record_batch h k v =
     (if h = [] then Inl IndexError
      else if batches (last h) = [] then Inl KeyError
      else Inr (butlast h @
             [(last h)\<lparr>batches :=
                 butlast (batches (last h)) @ [(last (batches (last h)))(k \<mapsto> v)]\<rparr>]))"

text \<open>Modelled from the spec: \<^verbatim>\<open>history[-1, 'batches', :, name]\<close>, contract (c): the values
  recorded under the name in the batches of the current epoch, a \<open>KeyError\<close> when no batch
  of the current epoch has the name.\<close>

definition batch_values :: "history \<Rightarrow> string \<Rightarrow> py_error + real list" where
  "batch_values h k =
     (if h = [] then Inl IndexError
      else (let vs = List.map_filter (\<lambda>b. b k) (batches (last h))
            in if vs = [] then Inl KeyError else Inr vs))"

text \<open>Modelled from the spec: the pair that \<^verbatim>\<open>history[-1, 'batches', :, [k1, k2]]\<close>
  yields for one batch: its two values when it has both names.\<close>

definition batch_pair :: "string \<Rightarrow> string \<Rightarrow> (string \<rightharpoonup> real) \<Rightarrow> (real \<times> real) option" where
  "batch_pair k1 k2 b =
     (case b k1 of None \<Rightarrow> None
      | Some v1 \<Rightarrow> (case b k2 of None \<Rightarrow> None | Some v2 \<Rightarrow> Some (v1, v2)))"

text \<open>Modelled from the spec: \<^verbatim>\<open>history[-1, 'batches', :, [k1, k2]]\<close>, contract (c) with
  the pairing: one pair for every batch of the current epoch that has both names, a
  \<open>KeyError\<close> when there is no such batch.\<close>

definition batch_pairs :: "history \<Rightarrow> string \<Rightarrow> string \<Rightarrow> py_error + (real \<times> real) list" where
  "batch_pairs h k1 k2 =
     (if h = [] then Inl IndexError
      else (let ps = List.map_filter (batch_pair k1 k2) (batches (last h))
            in if ps = [] then Inl KeyError else Inr ps))"

subsection \<open>The model object and its prediction operation\<close>

text \<open>
  Of a \<^verbatim>\<open>NeuralNet\<close> instance the callbacks use the attribute \<^verbatim>\<open>infer\<close> and the
  attribute \<^verbatim>\<open>history\<close>. Python resolves \<^verbatim>\<open>net.infer\<close> to the entry \<^verbatim>\<open>'infer'\<close> of the
  instance dictionary \<^verbatim>\<open>net.__dict__\<close> when there is one, and to the method of the class
  otherwise. \<open>dict_infer\<close> is that entry of the instance dictionary (\<open>None\<close>: no entry) and
  \<open>infer_method\<close> the method of the class, which runs real inference.

  An entry is either the function installed by \<^verbatim>\<open>cache_net_infer\<close>,
  \<^verbatim>\<open>lambda *a, **kw: next(y_preds)\<close>, written \<open>Replay ps\<close> with \<open>ps\<close> the items the
  iterator \<^verbatim>\<open>y_preds\<close> has not yet produced, or any other callable, \<open>Custom f\<close>.
\<close>

datatype ('x, 'v) infer_attr = Replay "'v list" | Custom "'x \<Rightarrow> 'v"

record ('x, 'v) net =
  infer_method :: "'x \<Rightarrow> 'v"
  dict_infer :: "('x, 'v) infer_attr option"
  history :: history

text \<open>The callable that \<^verbatim>\<open>net.infer\<close> resolves to, as a value that can be compared.\<close>

definition resolve_infer :: "('x, 'v) net \<Rightarrow> ('x, 'v) infer_attr" where
  "resolve_infer net = (case dict_infer net of None \<Rightarrow> Custom (infer_method net) | Some f \<Rightarrow> f)"

text \<open>The call \<^verbatim>\<open>net.infer(x)\<close>: \<^verbatim>\<open>next\<close> on an exhausted iterator raises
  \<open>StopIteration\<close>, and a replayed item is consumed.\<close>

definition net_infer :: "('x, 'v) net \<Rightarrow> 'x \<Rightarrow> (py_error + 'v) \<times> ('x, 'v) net" where
  "net_infer net x =
     (case dict_infer net of
        None \<Rightarrow> (Inr (infer_method net x), net)
      | Some (Custom f) \<Rightarrow> (Inr (f x), net)
      | Some (Replay []) \<Rightarrow> (Inl StopIteration, net)
      | Some (Replay (p # ps)) \<Rightarrow> (Inr p, net\<lparr>dict_infer := Some (Replay ps)\<rparr>))"

text \<open>
  Code that is handed the model and computes a result from it (a scorer, the body of a
  test) is a tree: it returns, raises, or calls \<^verbatim>\<open>net.infer(x)\<close> and goes on with the
  prediction it got. \<open>run\<close> executes such code against a model; an exception of
  \<^verbatim>\<open>net.infer\<close> propagates.
\<close>

datatype ('x, 'v, 'r) prog =
    Return 'r
  | Raise py_error
  | Infer 'x "'v \<Rightarrow> ('x, 'v, 'r) prog"

primrec run :: "('x, 'v, 'r) prog \<Rightarrow> ('x, 'v) net \<Rightarrow> (py_error + 'r) \<times> ('x, 'v) net" where
  "run (Return r) net = (Inr r, net)"
| "run (Raise e) net = (Inl e, net)"
| "run (Infer x k) net =
     (case net_infer net x of
        (Inl e, net') \<Rightarrow> (Inl e, net')
      | (Inr p, net') \<Rightarrow> run (k p) net')"

text \<open>
  A body that calls \<^verbatim>\<open>net.infer\<close> once for every argument of a list, in order, and
  returns the list of the values it got:
  \<^verbatim>\<open>out = []; for x in xs: out.append(net.infer(x)); return out\<close>.
\<close>

fun infer_each :: "'v list \<Rightarrow> 'x list \<Rightarrow> ('x, 'v, 'v list) prog" where
  "infer_each out [] = Return out"
| "infer_each out (x # xs) = Infer x (\<lambda>p. infer_each (out @ [p]) xs)"

subsection \<open>\<^verbatim>\<open>cache_net_infer\<close>\<close>

text \<open>
  The context manager, as the function that runs a \<^verbatim>\<open>with\<close> block: \<open>body\<close> is the code
  of the block, given the model that the generator yields; it returns its own outcome
  \<open>'r\<close> (which says whether the block raised) and the model as it left it.
  The result is a triple: the exception raised by the \<^verbatim>\<open>finally\<close> clause if any (the
  \<^verbatim>\<open>del\<close> of a missing dictionary entry is a \<open>KeyError\<close>, and it replaces whatever
  the block raised), the outcome of the block, and the model after the exit.
  With caching disabled the generator yields the model and returns: nothing is installed
  and nothing is deleted. The \<^verbatim>\<open>finally\<close> clause runs on a normal exit and on an
  exception alike, so it does not look at the outcome of the block.
\<close>

definition cache_net_infer ::
  "('x, 'v) net \<Rightarrow> bool \<Rightarrow> 'v list \<Rightarrow> (('x, 'v) net \<Rightarrow> 'r \<times> ('x, 'v) net)
     \<Rightarrow> py_error option \<times> 'r \<times> ('x, 'v) net" where
  "cache_net_infer net use_caching y_preds body =
     (if \<not> use_caching then (case body net of (r, net') \<Rightarrow> (None, r, net'))
      else (case body (net\<lparr>dict_infer := Some (Replay y_preds)\<rparr>) of
              (r, net') \<Rightarrow>
                (case dict_infer net' of
                   None \<Rightarrow> (Some KeyError, r, net')
                 | Some _ \<Rightarrow> (None, r, net'\<lparr>dict_infer := None\<rparr>))))"

subsection \<open>Datasets\<close>

text \<open>
  Modelled from the spec: \<^verbatim>\<open>skorch.dataset.Dataset\<close>, \<^verbatim>\<open>skorch.utils.is_skorch_dataset\<close>
  and \<^verbatim>\<open>skorch.utils.data_from_dataset\<close> are not part of the source file. The spec's dataset
  contract: a dataset exposes raw \<open>(X, y)\<close> extraction, and \<open>y\<close> may be absent (a
  placeholder). \<open>Dataset X y\<close> is an instance of skorch's \<^verbatim>\<open>Dataset\<close> with its attributes
  \<open>X\<close> and \<open>y\<close> (\<open>None\<close> is Python's \<^verbatim>\<open>None\<close>). \<open>Subset ds\<close> is a view on some of the
  samples of the dataset \<open>ds\<close>, an instance of torch's \<^verbatim>\<open>Subset\<close>, which is what a split
  into a training and a validation part hands to the callbacks; it is not an instance of
  skorch's \<^verbatim>\<open>Dataset\<close>, and which samples it selects is not modelled. \<open>OtherDataset d\<close> is
  any other object used as a dataset. A handler receives a dataset or \<^verbatim>\<open>None\<close>.
\<close>

datatype ('x, 'v) dataset =
    Dataset "'x option" "'v option"
  | Subset "('x, 'v) dataset"
  | OtherDataset 'x

text \<open>Modelled from the spec: \<^verbatim>\<open>is_skorch_dataset(ds)\<close>, whether the object is a skorch
  dataset; skorch's helper also says so of a skorch dataset nested inside a \<^verbatim>\<open>Subset\<close>.\<close>

fun is_skorch_dataset :: "('x, 'v) dataset option \<Rightarrow> bool" where
  "is_skorch_dataset None = False"
| "is_skorch_dataset (Some (Dataset X y)) = True"
| "is_skorch_dataset (Some (Subset ds)) = is_skorch_dataset (Some ds)"
| "is_skorch_dataset (Some (OtherDataset d)) = False"

text \<open>Modelled from the spec: \<^verbatim>\<open>data_from_dataset(ds)\<close>, the raw \<open>(X, y)\<close> extraction; of a
  view it is the data of the dataset it views (an absent \<open>y\<close> stays absent), and an object
  without the two attributes is an \<open>AttributeError\<close>.\<close>

fun data_from_dataset :: "('x, 'v) dataset \<Rightarrow> py_error + ('x option \<times> 'v option)" where
  "data_from_dataset (Dataset X y) = Inr (X, y)"
| "data_from_dataset (Subset ds) = data_from_dataset ds"
| "data_from_dataset (OtherDataset d) = Inl AttributeError"

text \<open>
  In the words of the specification: the dataset declares no targets (its targets are a
  placeholder). A skorch dataset does so when its \<open>y\<close> is absent, and a view on a dataset
  declares what the dataset declares.
\<close>

fun declares_no_targets :: "('x, 'v) dataset \<Rightarrow> bool" where
  "declares_no_targets (Dataset X y) = (y = None)"
| "declares_no_targets (Subset ds) = declares_no_targets ds"
| "declares_no_targets (OtherDataset d) = False"

text \<open>What a scorer is given as \<^verbatim>\<open>X_test\<close>: input data, or a dataset object as a whole.\<close>

datatype ('x, 'v) xtest = Data 'x | WholeDataset "('x, 'v) dataset"

subsection \<open>\<^verbatim>\<open>ScoringBase\<close>\<close>

text \<open>
  The argument \<^verbatim>\<open>scoring\<close>: \<^verbatim>\<open>None\<close>, a string, a \<^verbatim>\<open>functools.partial\<close> object, or any
  other object. Of a partial object \<^verbatim>\<open>_get_name\<close> reads \<^verbatim>\<open>scoring.func.__name__\<close> and of
  any other object \<^verbatim>\<open>scoring.__name__\<close>; the argument of the constructor is that
  attribute, \<open>None\<close> when the object has no such attribute.
\<close>

datatype scoring_spec =
    ScoringNone
  | ScoringStr string
  | ScoringPartial "string option"
  | ScoringCallable "string option"

text \<open>
  The instance attributes. \<open>scorer\<close> is what \<^verbatim>\<open>_scoring\<close> runs: the scorer that sklearn's
  \<^verbatim>\<open>check_scoring(net, self.scoring)\<close> resolves to, called through sklearn's \<^verbatim>\<open>_score\<close>.
  Both are outside the repository, so the scorer is a parameter: given the history of the
  model and the two data arguments it is code that may call \<^verbatim>\<open>net.infer\<close>, may raise, and
  returns a number. \<open>best_score'\<close> and \<open>name'\<close> are the attributes \<^verbatim>\<open>best_score_\<close> and \<^verbatim>\<open>name_\<close> (an
  identifier cannot end with an underscore here, so the prime stands for it). They are
  created by \<^verbatim>\<open>initialize\<close>; the record describes an instance on which \<^verbatim>\<open>initialize\<close>
  has run or is about to run.
\<close>

record ('x, 'v, 'a) scoring_base =
  scoring :: scoring_spec
  scorer :: "history \<Rightarrow> ('x, 'v) xtest \<Rightarrow> 'a list option \<Rightarrow> ('x, 'v, real) prog"
  lower_is_better :: "bool option"
  on_train :: bool
  name :: "string option"
  target_extractor :: "'v \<Rightarrow> py_error + 'a list"
  use_caching :: bool
  best_score' :: ext
  name' :: string

definition ScoringBase_get_name :: "('x, 'v, 'a, 'z) scoring_base_scheme \<Rightarrow> py_error + string" where
  "ScoringBase_get_name cb =
     (case name cb of
        Some n \<Rightarrow> Inr n
      | None \<Rightarrow>
          (case scoring cb of
             ScoringNone \<Rightarrow> Inr ''score''
           | ScoringStr s \<Rightarrow> Inr s
           | ScoringPartial None \<Rightarrow> Inl AttributeError
           | ScoringPartial (Some n) \<Rightarrow> Inr n
           | ScoringCallable None \<Rightarrow> Inl AttributeError
           | ScoringCallable (Some n) \<Rightarrow> Inr n))"

text \<open>\<^verbatim>\<open>initialize\<close>: \<^verbatim>\<open>np.inf if self.lower_is_better else -np.inf\<close> tests truthiness, so
  \<^verbatim>\<open>None\<close> gives \<^verbatim>\<open>-np.inf\<close>. When \<^verbatim>\<open>_get_name\<close> raises, the best score is already set.\<close>

definition ScoringBase_initialize ::
  "('x, 'v, 'a, 'z) scoring_base_scheme \<Rightarrow> py_error option \<times> ('x, 'v, 'a, 'z) scoring_base_scheme" where
  "ScoringBase_initialize cb =
     (let cb1 = cb\<lparr>best_score' := (if lower_is_better cb = Some True then PInf else MInf)\<rparr>
      in case ScoringBase_get_name cb1 of
           Inl e \<Rightarrow> (Some e, cb1)
         | Inr n \<Rightarrow> (None, cb1\<lparr>name' := n\<rparr>))"

definition ScoringBase_scoring ::
  "('x, 'v, 'a, 'z) scoring_base_scheme \<Rightarrow> ('x, 'v) net \<Rightarrow> ('x, 'v) xtest \<Rightarrow> 'a list option
     \<Rightarrow> (py_error + real) \<times> ('x, 'v) net" where
  "ScoringBase_scoring cb net X_test y_test = run (scorer cb (history net) X_test y_test) net"

definition ScoringBase_is_best_score ::
  "('x, 'v, 'a, 'z) scoring_base_scheme \<Rightarrow> real \<Rightarrow> bool option" where
  "ScoringBase_is_best_score cb current_score =
     (case lower_is_better cb of
        None \<Rightarrow> None
      | Some True \<Rightarrow> Some (ext_less (Fin current_score) (best_score' cb))
      | Some False \<Rightarrow> Some (ext_less (best_score' cb) (Fin current_score)))"

subsection \<open>\<^verbatim>\<open>BatchScoring\<close>\<close>

text \<open>\<^verbatim>\<open>except KeyError: pass\<close> applied to an exception: a \<open>KeyError\<close> is swallowed, any
  other exception goes on.\<close>

definition except_KeyError :: "py_error \<Rightarrow> py_error option" where
  "except_KeyError e = (if e = KeyError then None else Some e)"

text \<open>
  The block of the \<^verbatim>\<open>with\<close> statement of \<^verbatim>\<open>on_batch_end\<close>: the target extractor runs
  outside the \<^verbatim>\<open>try\<close>, the scoring call and \<^verbatim>\<open>record_batch\<close> inside it.
\<close>

definition BatchScoring_batch_body ::
  "('x, 'v, 'a, 'z) scoring_base_scheme \<Rightarrow> 'x \<Rightarrow> 'v \<Rightarrow> ('x, 'v) net
     \<Rightarrow> py_error option \<times> ('x, 'v) net" where
  "BatchScoring_batch_body cb X y cached_net =
     (case target_extractor cb y of
        Inl e \<Rightarrow> (Some e, cached_net)
      | Inr y' \<Rightarrow>
          (case ScoringBase_scoring cb cached_net (Data X) (Some y') of
             (Inl e, n1) \<Rightarrow> (except_KeyError e, n1)
           | (Inr score, n1) \<Rightarrow>
               (case record_batch (history n1) (name' cb) score of
                  Inl e \<Rightarrow> (except_KeyError e, n1)
                | Inr h1 \<Rightarrow> (None, n1\<lparr>history := h1\<rparr>))))"

text \<open>\<^verbatim>\<open>on_batch_end\<close>; \<open>y_pred\<close> is \<^verbatim>\<open>kwargs.get('y_pred')\<close>, and \<^verbatim>\<open>kwargs['y_pred']\<close> raises
  \<open>KeyError\<close> when the keyword is missing. An exception of the \<^verbatim>\<open>finally\<close> clause of
  the context manager replaces the outcome of the block.\<close>

definition BatchScoring_on_batch_end ::
  "('x, 'v, 'a, 'z) scoring_base_scheme \<Rightarrow> ('x, 'v) net \<Rightarrow> 'x \<Rightarrow> 'v \<Rightarrow> bool \<Rightarrow> 'v option
     \<Rightarrow> py_error option \<times> ('x, 'v, 'a, 'z) scoring_base_scheme \<times> ('x, 'v) net" where
  "BatchScoring_on_batch_end cb net X y training y_pred =
     (if training \<noteq> on_train cb then (None, cb, net)
      else (case y_pred of
              None \<Rightarrow> (Some KeyError, cb, net)
            | Some p \<Rightarrow>
                (case cache_net_infer net (use_caching cb) [p] (BatchScoring_batch_body cb X y) of
                   (Some e, r, net') \<Rightarrow> (Some e, cb, net')
                 | (None, r, net') \<Rightarrow> (r, cb, net'))))"

text \<open>\<^verbatim>\<open>weights, scores = list(zip(*pairs))\<close>: the unpacking of an empty list fails.\<close>

definition unzip_pairs :: "(real \<times> real) list \<Rightarrow> py_error + (real list \<times> real list)" where
  "unzip_pairs ps = (if ps = [] then Inl ValueError else Inr (map fst ps, map snd ps))"

text \<open>\<^verbatim>\<open>np.average(scores, weights=weights)\<close> of numpy, on two sequences of the same length:
  the sum of the products over the sum of the weights, and a \<open>ZeroDivisionError\<close> when the
  weights sum to zero.\<close>

definition np_average :: "real list \<Rightarrow> real list \<Rightarrow> py_error + real" where
  "np_average scores weights =
     (if sum_list weights = 0 then Inl ZeroDivisionError
      else Inr (sum_list (map2 (*) scores weights) / sum_list weights))"

definition BatchScoring_get_avg_score ::
  "('x, 'v, 'a, 'z) scoring_base_scheme \<Rightarrow> history \<Rightarrow> py_error + real" where
  "BatchScoring_get_avg_score cb h =
     (let bs_key = (if on_train cb then ''train_batch_size'' else ''valid_batch_size'')
      in case batch_pairs h bs_key (name' cb) of
           Inl e \<Rightarrow> Inl e
         | Inr ps \<Rightarrow>
             (case unzip_pairs ps of
                Inl e \<Rightarrow> Inl e
              | Inr (weights, scores) \<Rightarrow> np_average scores weights))"

text \<open>\<^verbatim>\<open>on_epoch_end\<close>. \<^verbatim>\<open>if is_best:\<close> tests truthiness: only \<^verbatim>\<open>True\<close> updates the best
  score, and the update comes before the two records.\<close>

definition BatchScoring_on_epoch_end ::
  "('x, 'v, 'a, 'z) scoring_base_scheme \<Rightarrow> ('x, 'v) net
     \<Rightarrow> py_error option \<times> ('x, 'v, 'a, 'z) scoring_base_scheme \<times> ('x, 'v) net" where
  "BatchScoring_on_epoch_end cb net =
     (case batch_values (history net) (name' cb) of
        Inl e \<Rightarrow> (except_KeyError e, cb, net)
      | Inr vs \<Rightarrow>
          (case BatchScoring_get_avg_score cb (history net) of
             Inl e \<Rightarrow> (Some e, cb, net)
           | Inr score_avg \<Rightarrow>
               (let is_best = ScoringBase_is_best_score cb score_avg;
                    cb1 = (if is_best = Some True then cb\<lparr>best_score' := Fin score_avg\<rparr> else cb)
                in case record_epoch (history net) (name' cb) (Num score_avg) of
                     Inl e \<Rightarrow> (Some e, cb1, net)
                   | Inr h1 \<Rightarrow>
                       (case is_best of
                          None \<Rightarrow> (None, cb1, net\<lparr>history := h1\<rparr>)
                        | Some b \<Rightarrow>
                            (case record_epoch h1 (name' cb @ ''_best'') (Flag b) of
                               Inl e \<Rightarrow> (Some e, cb1, net\<lparr>history := h1\<rparr>)
                             | Inr h2 \<Rightarrow> (None, cb1, net\<lparr>history := h2\<rparr>))))))"

subsection \<open>List objects\<close>

text \<open>
  The caches of \<^verbatim>\<open>EpochScoring\<close> are Python lists: objects with an identity, created by
  \<^verbatim>\<open>[]\<close>, mutated in place by \<^verbatim>\<open>append\<close>, and reachable from every attribute that
  holds a reference to them. The store maps the references handed out so far to the
  contents of the lists; \<open>next_ref\<close> is the first reference not handed out yet.
\<close>

record 'v store =
  cells :: "nat \<Rightarrow> 'v list"
  next_ref :: nat

text \<open>The expression \<^verbatim>\<open>[]\<close>: a new list object.\<close>

definition new_list :: "'v store \<Rightarrow> nat \<times> 'v store" where
  "new_list st =
     (next_ref st, st\<lparr>cells := (cells st)(next_ref st := []), next_ref := Suc (next_ref st)\<rparr>)"

text \<open>\<^verbatim>\<open>l.append(v)\<close> on the list object with reference \<open>r\<close>.\<close>

definition list_append :: "'v store \<Rightarrow> nat \<Rightarrow> 'v \<Rightarrow> 'v store" where
  "list_append st r v = st\<lparr>cells := (cells st)(r := cells st r @ [v])\<rparr>"

subsection \<open>\<^verbatim>\<open>EpochScoring\<close>\<close>

text \<open>
  \<open>y_trues'\<close> and \<open>y_preds'\<close> are the attributes \<^verbatim>\<open>y_trues_\<close> and \<^verbatim>\<open>y_preds_\<close>: references
  to list objects, created by \<^verbatim>\<open>initialize\<close> like \<open>best_score'\<close> and \<open>name'\<close>. \<open>y_is_placeholder'\<close> is the attribute \<^verbatim>\<open>y_is_placeholder_\<close>, which only
  \<^verbatim>\<open>on_epoch_begin\<close> creates: \<open>None\<close> says that the instance has no such attribute yet.
\<close>

record ('x, 'v, 'a) epoch_scoring = "('x, 'v, 'a) scoring_base" +
  y_trues' :: nat
  y_preds' :: nat
  y_is_placeholder' :: "bool option"

definition EpochScoring_initialize_cache ::
  "('x, 'v, 'a) epoch_scoring \<Rightarrow> 'v store \<Rightarrow> ('x, 'v, 'a) epoch_scoring \<times> 'v store" where
  "EpochScoring_initialize_cache cb st =
     (case new_list st of
        (r1, st1) \<Rightarrow>
          (case new_list st1 of
             (r2, st2) \<Rightarrow> (cb\<lparr>y_trues' := r1, y_preds' := r2\<rparr>, st2)))"

text \<open>\<^verbatim>\<open>initialize\<close>: when \<^verbatim>\<open>super().initialize()\<close> raises, the cache is not created.\<close>

definition EpochScoring_initialize ::
  "('x, 'v, 'a) epoch_scoring \<Rightarrow> 'v store
     \<Rightarrow> py_error option \<times> ('x, 'v, 'a) epoch_scoring \<times> 'v store" where
  "EpochScoring_initialize cb st =
     (case ScoringBase_initialize cb of
        (Some e, cb1) \<Rightarrow> (Some e, cb1, st)
      | (None, cb1) \<Rightarrow>
          (case EpochScoring_initialize_cache cb1 st of (cb2, st2) \<Rightarrow> (None, cb2, st2)))"

text \<open>\<^verbatim>\<open>isinstance(ds, Dataset) and ds.y is None\<close>: true of a skorch \<^verbatim>\<open>Dataset\<close> instance
  without \<open>y\<close> only, false of \<^verbatim>\<open>None\<close> and of any other object, a \<^verbatim>\<open>Subset\<close> included.\<close>

definition y_is_placeholder :: "('x, 'v) dataset option \<Rightarrow> bool" where
  "y_is_placeholder ds = (case ds of Some (Dataset X None) \<Rightarrow> True | _ \<Rightarrow> False)"

definition EpochScoring_on_epoch_begin ::
  "('x, 'v, 'a) epoch_scoring \<Rightarrow> 'v store \<Rightarrow> ('x, 'v) dataset option \<Rightarrow> ('x, 'v) dataset option
     \<Rightarrow> ('x, 'v, 'a) epoch_scoring \<times> 'v store" where
  "EpochScoring_on_epoch_begin cb st dataset_train dataset_valid =
     (case EpochScoring_initialize_cache cb st of
        (cb1, st1) \<Rightarrow>
          (let ds = (if on_train cb1 then dataset_train else dataset_valid)
           in (cb1\<lparr>y_is_placeholder' := Some (y_is_placeholder ds)\<rparr>, st1)))"

text \<open>\<^verbatim>\<open>on_batch_end\<close>. The handler is given the model and does not use it. Reading
  \<^verbatim>\<open>self.y_is_placeholder_\<close> before any \<^verbatim>\<open>on_epoch_begin\<close> is an \<open>AttributeError\<close>.\<close>

definition EpochScoring_on_batch_end ::
  "('x, 'v, 'a) epoch_scoring \<Rightarrow> ('x, 'v) net \<Rightarrow> 'v store \<Rightarrow> 'v \<Rightarrow> 'v \<Rightarrow> bool
     \<Rightarrow> py_error option \<times> ('x, 'v, 'a) epoch_scoring \<times> ('x, 'v) net \<times> 'v store" where
  "EpochScoring_on_batch_end cb net st y y_pred training =
     (if \<not> use_caching cb \<or> training \<noteq> on_train cb then (None, cb, net, st)
      else (case y_is_placeholder' cb of
              None \<Rightarrow> (Some AttributeError, cb, net, st)
            | Some ph \<Rightarrow>
                (let st1 = (if \<not> ph then list_append st (y_trues' cb) y else st)
                 in (None, cb, net, list_append st1 (y_preds' cb) y_pred))))"

text \<open>The list comprehension \<^verbatim>\<open>[self.target_extractor(y) for y in self.y_trues_]\<close>: the
  first exception of the extractor ends it.\<close>

fun extract_all :: "('v \<Rightarrow> py_error + 'b) \<Rightarrow> 'v list \<Rightarrow> py_error + 'b list" where
  "extract_all f [] = Inr []"
| "extract_all f (y # ys) =
     (case f y of
        Inl e \<Rightarrow> Inl e
      | Inr t \<Rightarrow> (case extract_all f ys of Inl e \<Rightarrow> Inl e | Inr ts \<Rightarrow> Inr (t # ts)))"

text \<open>
  The first half of \<^verbatim>\<open>on_epoch_end\<close>, up to \<^verbatim>\<open>if X_test is None\<close>: the three values
  \<^verbatim>\<open>X_test\<close>, \<^verbatim>\<open>y_test\<close> and \<^verbatim>\<open>y_pred\<close>. \<^verbatim>\<open>np.concatenate\<close> of numpy joins the extracted
  arrays; \<^verbatim>\<open>if y_test\<close> tests that the list of arrays is not empty. Without caching,
  \<^verbatim>\<open>X_test\<close> is the data of a skorch dataset and any other dataset (or \<^verbatim>\<open>None\<close>) itself.
\<close>

definition EpochScoring_scoring_inputs ::
  "('x, 'v, 'a) epoch_scoring \<Rightarrow> 'v store \<Rightarrow> ('x, 'v) dataset option \<Rightarrow> ('x, 'v) dataset option
     \<Rightarrow> py_error + (('x, 'v) xtest option \<times> 'a list option \<times> 'v list)" where
  "EpochScoring_scoring_inputs cb st dataset_train dataset_valid =
     (let dataset = (if on_train cb then dataset_train else dataset_valid)
      in if use_caching cb then
           (case extract_all (target_extractor cb) (cells st (y_trues' cb)) of
              Inl e \<Rightarrow> Inl e
            | Inr y_test \<Rightarrow>
                Inr (map_option WholeDataset dataset,
                     (if y_test \<noteq> [] then Some (concat y_test) else None),
                     cells st (y_preds' cb)))
         else
           (case (if is_skorch_dataset dataset
                  then (case dataset of
                          None \<Rightarrow> Inl AttributeError
                        | Some ds \<Rightarrow>
                            (case data_from_dataset ds of
                               Inl e \<Rightarrow> Inl e
                             | Inr (X, y) \<Rightarrow> Inr (map_option Data X, y)))
                  else Inr (map_option WholeDataset dataset, None)) of
              Inl e \<Rightarrow> Inl e
            | Inr (X_test, None) \<Rightarrow> Inr (X_test, None, [])
            | Inr (X_test, Some y) \<Rightarrow>
                (case target_extractor cb y of
                   Inl e \<Rightarrow> Inl e
                 | Inr y_test \<Rightarrow> Inr (X_test, Some y_test, []))))"

text \<open>The block of the \<^verbatim>\<open>with\<close> statement of \<^verbatim>\<open>on_epoch_end\<close>; it changes the instance
  (the best score) and the model (the history, the replayed predictions).\<close>

definition EpochScoring_epoch_body ::
  "('x, 'v, 'a) epoch_scoring \<Rightarrow> ('x, 'v) xtest \<Rightarrow> 'a list option \<Rightarrow> ('x, 'v) net
     \<Rightarrow> (py_error option \<times> ('x, 'v, 'a) epoch_scoring) \<times> ('x, 'v) net" where
  "EpochScoring_epoch_body cb X_test y_test cached_net =
     (case ScoringBase_scoring cb cached_net X_test y_test of
        (Inl e, n1) \<Rightarrow> ((Some e, cb), n1)
      | (Inr current_score, n1) \<Rightarrow>
          (case record_epoch (history n1) (name' cb) (Num current_score) of
             Inl e \<Rightarrow> ((Some e, cb), n1)
           | Inr h1 \<Rightarrow>
               (case ScoringBase_is_best_score cb current_score of
                  None \<Rightarrow> ((None, cb), n1\<lparr>history := h1\<rparr>)
                | Some b \<Rightarrow>
                    (case record_epoch h1 (name' cb @ ''_best'') (Flag b) of
                       Inl e \<Rightarrow> ((Some e, cb), n1\<lparr>history := h1\<rparr>)
                     | Inr h2 \<Rightarrow>
                         ((None, if b then cb\<lparr>best_score' := Fin current_score\<rparr> else cb),
                          n1\<lparr>history := h2\<rparr>)))))"

definition EpochScoring_on_epoch_end ::
  "('x, 'v, 'a) epoch_scoring \<Rightarrow> ('x, 'v) net \<Rightarrow> 'v store
     \<Rightarrow> ('x, 'v) dataset option \<Rightarrow> ('x, 'v) dataset option
     \<Rightarrow> py_error option \<times> ('x, 'v, 'a) epoch_scoring \<times> ('x, 'v) net" where
  "EpochScoring_on_epoch_end cb net st dataset_train dataset_valid =
     (case EpochScoring_scoring_inputs cb st dataset_train dataset_valid of
        Inl e \<Rightarrow> (Some e, cb, net)
      | Inr (None, y_test, y_pred) \<Rightarrow> (None, cb, net)
      | Inr (Some X_test, y_test, y_pred) \<Rightarrow>
          (case cache_net_infer net (use_caching cb) y_pred
                  (EpochScoring_epoch_body cb X_test y_test) of
             (Some e, (r, cb1), net') \<Rightarrow> (Some e, cb1, net')
           | (None, (r, cb1), net') \<Rightarrow> (r, cb1, net')))"

definition EpochScoring_on_train_end ::
  "('x, 'v, 'a) epoch_scoring \<Rightarrow> 'v store \<Rightarrow> ('x, 'v, 'a) epoch_scoring \<times> 'v store" where
  "EpochScoring_on_train_end cb st = EpochScoring_initialize_cache cb st"

subsection \<open>The lifecycle events\<close>

text \<open>
  Modelled from the spec: the training loop is not part of the source file. The spec lists
  the lifecycle events a strategy consumes, \<^verbatim>\<open>on_epoch_begin(train_dataset, valid_dataset)\<close>,
  \<^verbatim>\<open>on_batch_end(X, y, y_pred, training_phase_flag)\<close>,
  \<^verbatim>\<open>on_epoch_end(train_dataset, valid_dataset)\<close> and \<^verbatim>\<open>on_train_end()\<close>, and says that the
  loop drives one event at a time into each callback in sequence. \<open>EpochScoring_notify\<close>
  hands one event to one \<^verbatim>\<open>EpochScoring\<close> instance.
\<close>

datatype ('x, 'v) event =
    EpochBegin "('x, 'v) dataset option" "('x, 'v) dataset option"
  | BatchEnd 'v 'v bool
  | EpochEnd "('x, 'v) dataset option" "('x, 'v) dataset option"
  | TrainEnd

fun EpochScoring_notify ::
  "('x, 'v, 'a) epoch_scoring \<Rightarrow> ('x, 'v) net \<Rightarrow> 'v store \<Rightarrow> ('x, 'v) event
     \<Rightarrow> py_error option \<times> ('x, 'v, 'a) epoch_scoring \<times> ('x, 'v) net \<times> 'v store" where
  "EpochScoring_notify cb net st (EpochBegin dataset_train dataset_valid) =
     (case EpochScoring_on_epoch_begin cb st dataset_train dataset_valid of
        (cb1, st1) \<Rightarrow> (None, cb1, net, st1))"
| "EpochScoring_notify cb net st (BatchEnd y y_pred training) =
     EpochScoring_on_batch_end cb net st y y_pred training"
| "EpochScoring_notify cb net st (EpochEnd dataset_train dataset_valid) =
     (case EpochScoring_on_epoch_end cb net st dataset_train dataset_valid of
        (e, cb1, net1) \<Rightarrow> (e, cb1, net1, st))"
| "EpochScoring_notify cb net st TrainEnd =
     (case EpochScoring_on_train_end cb st of (cb1, st1) \<Rightarrow> (None, cb1, net, st1))"

text \<open>
  Modelled from the spec: the training loop with two \<^verbatim>\<open>EpochScoring\<close> instances on one
  run. They share the model and the store of list objects, and the loop drives one event
  at a time into one callback. An event is tagged with the instance that handles it
  (\<open>True\<close>: the first). The run goes on after an exception, so that it also covers a
  caller that catches it.
\<close>

fun notify_two ::
  "(bool \<times> ('x, 'v) event) list
     \<Rightarrow> ('x, 'v, 'a) epoch_scoring \<times> ('x, 'v, 'a) epoch_scoring \<times> ('x, 'v) net \<times> 'v store
     \<Rightarrow> ('x, 'v, 'a) epoch_scoring \<times> ('x, 'v, 'a) epoch_scoring \<times> ('x, 'v) net \<times> 'v store" where
  "notify_two [] w = w"
| "notify_two ((first, ev) # evs) (cb1, cb2, net, st) =
     (if first
      then (case EpochScoring_notify cb1 net st ev of
              (e, cb1', net', st') \<Rightarrow> notify_two evs (cb1', cb2, net', st'))
      else (case EpochScoring_notify cb2 net st ev of
              (e, cb2', net', st') \<Rightarrow> notify_two evs (cb1, cb2', net', st')))"

text \<open>Modelled from the spec: the batch events of one epoch, which the training loop
  hands to one instance in order; the first exception ends the run.\<close>

fun EpochScoring_batch_events ::
  "('x, 'v, 'a) epoch_scoring \<Rightarrow> ('x, 'v) net \<Rightarrow> 'v store \<Rightarrow> ('v \<times> 'v \<times> bool) list
     \<Rightarrow> py_error option \<times> ('x, 'v, 'a) epoch_scoring \<times> ('x, 'v) net \<times> 'v store" where
  "EpochScoring_batch_events cb net st [] = (None, cb, net, st)"
| "EpochScoring_batch_events cb net st ((y, y_pred, training) # bs) =
     (case EpochScoring_on_batch_end cb net st y y_pred training of
        (Some e, cb1, net1, st1) \<Rightarrow> (Some e, cb1, net1, st1)
      | (None, cb1, net1, st1) \<Rightarrow> EpochScoring_batch_events cb1 net1 st1 bs)"

text \<open>
  Modelled from the spec: epochs without batches, as the training loop runs them for one
  \<^verbatim>\<open>EpochScoring\<close> instance. The loop opens the epoch in the history and notifies the
  begin and the end of the epoch; the first exception ends the run.
\<close>

fun EpochScoring_epochs ::
  "nat \<Rightarrow> ('x, 'v, 'a) epoch_scoring \<Rightarrow> ('x, 'v) net \<Rightarrow> 'v store
     \<Rightarrow> ('x, 'v) dataset option \<Rightarrow> ('x, 'v) dataset option
     \<Rightarrow> py_error option \<times> ('x, 'v, 'a) epoch_scoring \<times> ('x, 'v) net \<times> 'v store" where
  "EpochScoring_epochs 0 cb net st dataset_train dataset_valid = (None, cb, net, st)"
| "EpochScoring_epochs (Suc n) cb net st dataset_train dataset_valid =
     (case EpochScoring_on_epoch_begin cb st dataset_train dataset_valid of
        (cb1, st1) \<Rightarrow>
          (case EpochScoring_on_epoch_end cb1 (net\<lparr>history := new_epoch (history net)\<rparr>) st1
                  dataset_train dataset_valid of
             (Some e, cb2, net2) \<Rightarrow> (Some e, cb2, net2, st1)
           | (None, cb2, net2) \<Rightarrow> EpochScoring_epochs n cb2 net2 st1 dataset_train dataset_valid))"

subsection \<open>The weighted mean, in the words of the specification\<close>

text \<open>
  The sample-size-weighted average of the batch scores of an epoch: over the batches of
  the epoch that recorded a score under \<open>k\<close>, the sum of size times score, divided by the
  sum of the sizes; \<open>size_key\<close> is the name under which a batch declares its size.
\<close>

definition scored_batches :: "(string \<rightharpoonup> real) list \<Rightarrow> string \<Rightarrow> (string \<rightharpoonup> real) list" where
  "scored_batches bs k = filter (\<lambda>b. b k \<noteq> None) bs"

definition spec_weighted_mean :: "(string \<rightharpoonup> real) list \<Rightarrow> string \<Rightarrow> string \<Rightarrow> real" where
  "spec_weighted_mean bs size_key k =
     (\<Sum>b\<leftarrow>scored_batches bs k. the (b size_key) * the (b k))
       / (\<Sum>b\<leftarrow>scored_batches bs k. the (b size_key))"

subsection \<open>Entries of the history under a key\<close>

text \<open>Everything the history holds under a key: for every epoch, its epoch-level entry
  and the entries of its batches.\<close>

definition entries_under :: "history \<Rightarrow> string \<Rightarrow> (hval option \<times> real option list) list" where
  "entries_under h k = map (\<lambda>e. (cols e k, map (\<lambda>b. b k) (batches e))) h"

subsection \<open>Two instances with caches of their own\<close>

text \<open>The caches of two instances are separate in a store when all four references have
  been handed out and no reference of the one is a reference of the other.\<close>

definition separate ::
  "('x, 'v, 'a) epoch_scoring \<Rightarrow> ('x, 'v, 'a) epoch_scoring \<Rightarrow> 'v store \<Rightarrow> bool" where
  "separate a b st \<longleftrightarrow>
     y_trues' a < next_ref st \<and> y_preds' a < next_ref st \<and>
     y_trues' b < next_ref st \<and> y_preds' b < next_ref st \<and>
     y_trues' a \<noteq> y_trues' b \<and> y_trues' a \<noteq> y_preds' b \<and>
     y_preds' a \<noteq> y_trues' b \<and> y_preds' a \<noteq> y_preds' b"

subsection \<open>Example instances\<close>

text \<open>Concrete callbacks, models and histories on which the properties below are
  evaluated. Inputs, raw targets and predictions are natural numbers; the target extractor
  turns a target into an array of one element.\<close>

definition extract_one :: "nat \<Rightarrow> py_error + nat list" where
  "extract_one y = Inr [y]"

text \<open>A scorer that declines with a \<open>KeyError\<close>, and one that fails with another error.\<close>

definition keyerror_scorer ::
  "history \<Rightarrow> (nat, nat) xtest \<Rightarrow> nat list option \<Rightarrow> (nat, nat, real) prog" where
  "keyerror_scorer h X y = Raise KeyError"

definition failing_scorer ::
  "history \<Rightarrow> (nat, nat) xtest \<Rightarrow> nat list option \<Rightarrow> (nat, nat, real) prog" where
  "failing_scorer h X y = Raise ValueError"

definition declining_batch_scoring :: "(nat, nat, nat) scoring_base" where
  "declining_batch_scoring =
     \<lparr>scoring = ScoringCallable (Some ''my_score''), scorer = keyerror_scorer,
      lower_is_better = Some True, on_train = False, name = None,
      target_extractor = extract_one, use_caching = True,
      best_score' = PInf, name' = ''my_score''\<rparr>"

text \<open>A model in the first epoch before its first batch.\<close>

definition no_batch_net :: "(nat, nat) net" where
  "no_batch_net =
     \<lparr>infer_method = id, dict_infer = None,
      history = [\<lparr>cols = Map.empty, batches = []\<rparr>]\<rparr>"

text \<open>A model in the first batch of the first epoch.\<close>

definition one_batch_net :: "(nat, nat) net" where
  "one_batch_net =
     \<lparr>infer_method = id, dict_infer = None,
      history = [\<lparr>cols = Map.empty, batches = [Map.empty]\<rparr>]\<rparr>"

text \<open>A scorer that returns a fixed score without calling \<^verbatim>\<open>net.infer\<close>, and a
  \<^verbatim>\<open>BatchScoring\<close> callback for the validation phase, initialized, named \<^verbatim>\<open>my_score\<close>.\<close>

definition const_scorer ::
  "real \<Rightarrow> history \<Rightarrow> (nat, nat) xtest \<Rightarrow> nat list option \<Rightarrow> (nat, nat, real) prog" where
  "const_scorer s h X y = Return s"

definition valid_batch_scoring :: "(nat, nat, nat) scoring_base" where
  "valid_batch_scoring =
     \<lparr>scoring = ScoringCallable (Some ''my_score''), scorer = const_scorer 0.5,
      lower_is_better = Some True, on_train = False, name = None,
      target_extractor = extract_one, use_caching = True,
      best_score' = PInf, name' = ''my_score''\<rparr>"

text \<open>A model whose current epoch has three batches, with the batch sizes \<open>[2, 3, 5]\<close>
  and the batch scores \<open>[0.1, 0.2, 0.3]\<close>.\<close>

definition three_batches_net :: "(nat, nat) net" where
  "three_batches_net =
     \<lparr>infer_method = id, dict_infer = None,
      history = [\<lparr>cols = Map.empty,
                  batches = [[''valid_batch_size'' \<mapsto> 2, ''my_score'' \<mapsto> 0.1],
                             [''valid_batch_size'' \<mapsto> 3, ''my_score'' \<mapsto> 0.2],
                             [''valid_batch_size'' \<mapsto> 5, ''my_score'' \<mapsto> 0.3]]\<rparr>]\<rparr>"

text \<open>A store without list objects, a store with two empty list objects (the references
  \<open>0\<close> and \<open>1\<close>), and an \<^verbatim>\<open>EpochScoring\<close> callback for the validation phase,
  initialized, named \<^verbatim>\<open>my_score\<close>, whose caches are these two lists, in an epoch whose
  dataset has targets.\<close>

definition empty_store :: "nat store" where
  "empty_store = \<lparr>cells = (\<lambda>r. []), next_ref = 0\<rparr>"

definition two_lists_store :: "nat store" where
  "two_lists_store = \<lparr>cells = (\<lambda>r. []), next_ref = 2\<rparr>"

definition valid_epoch_scoring :: "(nat, nat, nat) epoch_scoring" where
  "valid_epoch_scoring =
     \<lparr>scoring = ScoringCallable (Some ''my_score''), scorer = const_scorer 0.5,
      lower_is_better = Some True, on_train = False, name = None,
      target_extractor = extract_one, use_caching = True,
      best_score' = PInf, name' = ''my_score'',
      y_trues' = 0, y_preds' = 1, y_is_placeholder' = Some False\<rparr>"

text \<open>The validation part of a split of a skorch dataset that has no \<open>y\<close>.\<close>

definition split_placeholder_dataset :: "(nat, nat) dataset" where
  "split_placeholder_dataset = Subset (Dataset (Some 0) None)"

text \<open>The two callbacks with comparison disabled: \<^verbatim>\<open>lower_is_better=None\<close>.\<close>

definition uncompared_batch_scoring :: "(nat, nat, nat) scoring_base" where
  "uncompared_batch_scoring = valid_batch_scoring\<lparr>lower_is_better := None, best_score' := MInf\<rparr>"

definition uncompared_epoch_scoring :: "(nat, nat, nat) epoch_scoring" where
  "uncompared_epoch_scoring = valid_epoch_scoring\<lparr>lower_is_better := None, best_score' := MInf\<rparr>"

text \<open>
  A scorer that returns the epoch scores \<open>[0.5, 0.3, 0.4, 0.3]\<close>, one per epoch (it reads
  the number of the epoch off the history), a lower-is-better \<^verbatim>\<open>EpochScoring\<close> callback
  with this scorer as the constructor leaves it, before \<^verbatim>\<open>initialize\<close>, and a model at the
  start of a run.
\<close>

definition fed_scores_scorer ::
  "history \<Rightarrow> (nat, nat) xtest \<Rightarrow> nat list option \<Rightarrow> (nat, nat, real) prog" where
  "fed_scores_scorer h X y =
     (case drop (length h - 1) [0.5, 0.3, 0.4, 0.3] of
        [] \<Rightarrow> Raise IndexError
      | s # rest \<Rightarrow> Return s)"

definition fed_epoch_scoring :: "(nat, nat, nat) epoch_scoring" where
  "fed_epoch_scoring =
     \<lparr>scoring = ScoringCallable (Some ''my_score''), scorer = fed_scores_scorer,
      lower_is_better = Some True, on_train = False, name = None,
      target_extractor = extract_one, use_caching = True,
      best_score' = MInf, name' = [],
      y_trues' = 0, y_preds' = 0, y_is_placeholder' = None\<rparr>"

definition fresh_net :: "(nat, nat) net" where
  "fresh_net = \<lparr>infer_method = id, dict_infer = None, history = []\<rparr>"

text \<open>
  Two \<^verbatim>\<open>EpochScoring\<close> instances on one run, one for the validation phase and one for
  the training phase, initialized one after the other, and the run up to the second batch
  of the first epoch: each instance has begun the epoch and seen one batch of its phase.
\<close>

definition train_epoch_scoring :: "(nat, nat, nat) epoch_scoring" where
  "train_epoch_scoring = fed_epoch_scoring\<lparr>scorer := const_scorer 0.5, on_train := True\<rparr>"

definition valid_instance :: "(nat, nat, nat) epoch_scoring" where
  "valid_instance = fst (snd (EpochScoring_initialize fed_epoch_scoring empty_store))"

definition store_after_first :: "nat store" where
  "store_after_first = snd (snd (EpochScoring_initialize fed_epoch_scoring empty_store))"

definition train_instance :: "(nat, nat, nat) epoch_scoring" where
  "train_instance = fst (snd (EpochScoring_initialize train_epoch_scoring store_after_first))"

definition store_after_second :: "nat store" where
  "store_after_second = snd (snd (EpochScoring_initialize train_epoch_scoring store_after_first))"

definition shared_run ::
  "(nat, nat, nat) epoch_scoring \<times> (nat, nat, nat) epoch_scoring \<times> (nat, nat) net \<times> nat store" where
  "shared_run =
     notify_two
       [(True, EpochBegin None None), (False, EpochBegin None None),
        (True, BatchEnd 1 2 False), (False, BatchEnd 3 4 True)]
       (valid_instance, train_instance, fresh_net, store_after_second)"

section \<open>Properties\<close>

subsection \<open>The cache guard\<close>

lemma run_infer_each_replay:
  "length xs = length ps \<Longrightarrow> dict_infer net = Some (Replay (ps @ rest)) \<Longrightarrow>
   run (infer_each out xs) net = (Inr (out @ ps), net\<lparr>dict_infer := Some (Replay rest)\<rparr>)"
proof (induction xs arbitrary: ps out net)
  case Nil
  then show ?case by simp
next
  case (Cons x xs)
  then obtain p ps' where ps: "ps = p # ps'" by (cases ps) auto
  with Cons.prems have len: "length xs = length ps'" by simp
  have step: "net_infer net x = (Inr p, net\<lparr>dict_infer := Some (Replay (ps' @ rest))\<rparr>)"
    using Cons.prems(2) ps by (simp add: net_infer_def)
  show ?case
    using Cons.IH [OF len, of "net\<lparr>dict_infer := Some (Replay (ps' @ rest))\<rparr>" "out @ [p]"] step ps
    by simp
qed

text \<open>A call of \<^verbatim>\<open>net.infer\<close>, and so any code that only calls it, changes nothing of the
  model but the position of the replayed iterator.\<close>

lemma net_infer_frame:
  "net_infer net x = (r, net') \<Longrightarrow>
     infer_method net' = infer_method net \<and> history net' = history net \<and>
     (dict_infer net = None \<longleftrightarrow> dict_infer net' = None)"
  by (auto simp: net_infer_def split: option.splits infer_attr.splits list.splits)

lemma run_frame:
  "run prog net = (r, net') \<Longrightarrow>
     infer_method net' = infer_method net \<and> history net' = history net \<and>
     (dict_infer net = None \<longleftrightarrow> dict_infer net' = None)"
proof (induction prog arbitrary: net r net')
  case (Infer x k)
  obtain r1 n1 where s: "net_infer net x = (r1, n1)" by (cases "net_infer net x")
  note f = net_infer_frame [OF s]
  show ?case
  proof (cases r1)
    case (Inl e)
    with Infer.prems s f show ?thesis by auto
  next
    case (Inr p)
    with Infer.prems s have "run (k p) n1 = (r, net')" by simp
    from Infer.IH [OF _ this] f show ?thesis by auto
  qed
qed auto

lemma cache_net_infer_exit:
  "cache_net_infer net True ps body = (e, r, net') \<Longrightarrow>
     dict_infer net' = None \<and> r = fst (body (net\<lparr>dict_infer := Some (Replay ps)\<rparr>)) \<and>
     net'\<lparr>dict_infer := None\<rparr> = (snd (body (net\<lparr>dict_infer := Some (Replay ps)\<rparr>)))\<lparr>dict_infer := None\<rparr>"
  by (auto simp: cache_net_infer_def split: prod.splits option.splits)

lemma cache_net_infer_run_restores:
  assumes "dict_infer net = None"
  shows "snd (snd (cache_net_infer net True ps (run prog))) = net"
proof -
  obtain r n1 where b: "run prog (net\<lparr>dict_infer := Some (Replay ps)\<rparr>) = (r, n1)"
    by (cases "run prog (net\<lparr>dict_infer := Some (Replay ps)\<rparr>)")
  from run_frame [OF b] have f: "infer_method n1 = infer_method net" "history n1 = history net"
    "dict_infer n1 \<noteq> None" by auto
  then obtain a where a: "dict_infer n1 = Some a" by auto
  have "n1\<lparr>dict_infer := None\<rparr> = net" using f assms by (cases n1, cases net) simp
  then show ?thesis using b a by (simp add: cache_net_infer_def)
qed

text \<open>
  Claim C1, as amended. Entering \<^verbatim>\<open>cache_net_infer\<close> with caching enabled on any model
  and any sequence \<open>ps\<close> of \<open>N\<close> predictions, a block that calls \<^verbatim>\<open>net.infer\<close> exactly \<open>N\<close>
  times (with any arguments \<open>xs\<close>) gets exactly \<open>ps\<close>, in order. After any block \<open>body\<close>,
  whatever its outcome, the instance dictionary has no entry \<^verbatim>\<open>infer\<close>, so that
  \<^verbatim>\<open>net.infer\<close> resolves to the method of the class. When the model had no such entry at
  the entry of the scope, then after any code \<open>prog\<close> that uses the model through
  \<^verbatim>\<open>net.infer\<close>, whether it returns or raises, the model is the original one.
\<close>

theorem cache_net_infer_replays_and_removes:
  fixes net :: "('x, 'v) net" and body :: "('x, 'v) net \<Rightarrow> 'b \<times> ('x, 'v) net"
    and prog :: "('x, 'v, 'r) prog"
  shows "(length xs = length ps \<longrightarrow>
            cache_net_infer net True ps (run (infer_each [] xs))
              = (None, Inr ps, net\<lparr>dict_infer := None\<rparr>))
       \<and> dict_infer (snd (snd (cache_net_infer net True ps body))) = None
       \<and> resolve_infer (snd (snd (cache_net_infer net True ps body)))
           = Custom (infer_method (snd (snd (cache_net_infer net True ps body))))
       \<and> (dict_infer net = None \<longrightarrow> snd (snd (cache_net_infer net True ps (run prog))) = net)"
proof (intro conjI impI)
  assume len: "length xs = length ps"
  have "run (infer_each [] xs) (net\<lparr>dict_infer := Some (Replay ps)\<rparr>)
          = (Inr ([] @ ps), net\<lparr>dict_infer := Some (Replay ps)\<rparr>\<lparr>dict_infer := Some (Replay [])\<rparr>)"
    by (rule run_infer_each_replay [OF len]) simp
  then show "cache_net_infer net True ps (run (infer_each [] xs))
               = (None, Inr ps, net\<lparr>dict_infer := None\<rparr>)"
    by (simp add: cache_net_infer_def)
next
  obtain e r net' where c: "cache_net_infer net True ps body = (e, r, net')"
    by (cases "cache_net_infer net True ps body")
  from cache_net_infer_exit [OF c]
  show d: "dict_infer (snd (snd (cache_net_infer net True ps body))) = None"
    using c by simp
  then show "resolve_infer (snd (snd (cache_net_infer net True ps body)))
           = Custom (infer_method (snd (snd (cache_net_infer net True ps body))))"
    by (simp add: resolve_infer_def)
next
  assume "dict_infer net = None"
  then show "snd (snd (cache_net_infer net True ps (run prog))) = net"
    by (rule cache_net_infer_run_restores)
qed

text \<open>The theorem at a model without an entry: two calls replay \<open>[7, 8]\<close>, and a block
  that raises after one call leaves the model as it was.\<close>

theorem cache_net_infer_replays_and_removes_witness:
  "length [0, 0::nat] = length [7, 8::nat]
   \<and> cache_net_infer \<lparr>infer_method = id, dict_infer = None, history = []\<rparr> True [7, 8::nat]
       (run (infer_each [] [0, 0::nat]))
     = (None, Inr [7, 8], \<lparr>infer_method = id, dict_infer = None, history = []\<rparr>)
   \<and> dict_infer \<lparr>infer_method = id :: nat \<Rightarrow> nat, dict_infer = None, history = []\<rparr> = None
   \<and> snd (snd (cache_net_infer \<lparr>infer_method = id, dict_infer = None, history = []\<rparr> True [7, 8::nat]
       (run (Infer 0 (\<lambda>p. Raise ValueError) :: (nat, nat, nat list) prog))))
     = \<lparr>infer_method = id, dict_infer = None, history = []\<rparr>"
  using cache_net_infer_replays_and_removes
    [of "[0, 0::nat]" "[7, 8::nat]" "\<lparr>infer_method = id, dict_infer = None, history = []\<rparr>"
        "run (Raise ValueError :: (nat, nat, nat) prog)"
        "Infer 0 (\<lambda>p. Raise ValueError) :: (nat, nat, nat list) prog"]
  by simp

text \<open>
  Claim C1 as stated fails on a model that already has an entry \<^verbatim>\<open>infer\<close> in its instance
  dictionary (here the callable \<open>Suc\<close>, over the method \<open>id\<close> of the class): the guard
  overwrites the entry and the exit deletes it, so that after the scope \<^verbatim>\<open>net.infer\<close> is
  the method of the class and not the operation the model had before.
\<close>

theorem cache_net_infer_not_restored_counterexample:
  "resolve_infer (snd (snd (cache_net_infer
       \<lparr>infer_method = id, dict_infer = Some (Custom Suc), history = []\<rparr> True [7::nat]
       (run (infer_each [] [0::nat])))))
     \<noteq> resolve_infer \<lparr>infer_method = id, dict_infer = Some (Custom Suc), history = []\<rparr>
   \<and> fst (net_infer (snd (snd (cache_net_infer
       \<lparr>infer_method = id, dict_infer = Some (Custom Suc), history = []\<rparr> True [7::nat]
       (run (infer_each [] [0::nat]))))) 0) = Inr 0
   \<and> fst (net_infer \<lparr>infer_method = id, dict_infer = Some (Custom Suc), history = []\<rparr> (0::nat)) = Inr 1"
  apply (simp add: cache_net_infer_def net_infer_def resolve_infer_def)
  apply (auto simp: fun_eq_iff)
  done

subsection \<open>Errors in the batch handler of \<^verbatim>\<open>BatchScoring\<close>\<close>

lemma batch_body_frame:
  "BatchScoring_batch_body cb X y n = (r, n') \<Longrightarrow>
     infer_method n' = infer_method n \<and> (dict_infer n = None \<longleftrightarrow> dict_infer n' = None)"
  by (auto simp: BatchScoring_batch_body_def ScoringBase_scoring_def
           split: sum.splits prod.splits dest: run_frame)

lemma cache_net_infer_no_exit_error:
  assumes "\<And>n r n'. body n = (r, n') \<Longrightarrow> (dict_infer n = None \<longleftrightarrow> dict_infer n' = None)"
  shows "cache_net_infer net c ps body =
           (None, fst (body (if c then net\<lparr>dict_infer := Some (Replay ps)\<rparr> else net)),
            (if c then (snd (body (net\<lparr>dict_infer := Some (Replay ps)\<rparr>)))\<lparr>dict_infer := None\<rparr>
             else snd (body net)))"
proof (cases c)
  case False
  then show ?thesis by (simp add: cache_net_infer_def split: prod.splits)
next
  case True
  obtain r n' where b: "body (net\<lparr>dict_infer := Some (Replay ps)\<rparr>) = (r, n')"
    by (cases "body (net\<lparr>dict_infer := Some (Replay ps)\<rparr>)")
  from assms [OF b] have "dict_infer n' \<noteq> None" by simp
  then show ?thesis using True b by (auto simp: cache_net_infer_def)
qed

lemma BatchScoring_on_batch_end_eq:
  assumes "training = on_train cb"
  shows "BatchScoring_on_batch_end cb net X y training (Some p) =
     (fst (BatchScoring_batch_body cb X y (if use_caching cb then net\<lparr>dict_infer := Some (Replay [p])\<rparr> else net)),
      cb,
      (if use_caching cb
       then (snd (BatchScoring_batch_body cb X y (net\<lparr>dict_infer := Some (Replay [p])\<rparr>)))\<lparr>dict_infer := None\<rparr>
       else snd (BatchScoring_batch_body cb X y net)))"
proof -
  have "\<And>n r n'. BatchScoring_batch_body cb X y n = (r, n') \<Longrightarrow> (dict_infer n = None \<longleftrightarrow> dict_infer n' = None)"
    by (drule batch_body_frame) simp
  from cache_net_infer_no_exit_error [of "BatchScoring_batch_body cb X y", OF this]
  show ?thesis using assms by (simp add: BatchScoring_on_batch_end_def)
qed

text \<open>
  Claim C2, as amended. In \<^verbatim>\<open>BatchScoring.on_batch_end\<close>, for a batch of the strategy's
  phase whose target the extractor accepts, a \<open>KeyError\<close> raised inside the \<^verbatim>\<open>try\<close>
  block, by the scoring call itself or by the history-recording step, is caught and
  treated as a silent skip: the handler returns normally and the history is unchanged.
  Any other error raised by the scoring call (or by the recording step) propagates to the
  caller, and the history is unchanged as well.
\<close>

theorem BatchScoring_on_batch_end_catches_KeyError:
  fixes cb :: "('x, 'v, 'a, 'z) scoring_base_scheme" and net :: "('x, 'v) net"
  assumes phase: "training = on_train cb"
      and extr: "target_extractor cb y = Inr y'"
      and entered: "guarded = (if use_caching cb then net\<lparr>dict_infer := Some (Replay [p])\<rparr> else net)"
  shows "(fst (ScoringBase_scoring cb guarded (Data X) (Some y')) = Inl e \<longrightarrow>
            fst (BatchScoring_on_batch_end cb net X y training (Some p))
              = (if e = KeyError then None else Some e)
            \<and> history (snd (snd (BatchScoring_on_batch_end cb net X y training (Some p))))
              = history net)
       \<and> (fst (ScoringBase_scoring cb guarded (Data X) (Some y')) = Inr s \<and>
            record_batch (history net) (name' cb) s = Inl e \<longrightarrow>
            fst (BatchScoring_on_batch_end cb net X y training (Some p))
              = (if e = KeyError then None else Some e)
            \<and> history (snd (snd (BatchScoring_on_batch_end cb net X y training (Some p))))
              = history net)"
proof -
  obtain sr n1 where sc: "ScoringBase_scoring cb guarded (Data X) (Some y') = (sr, n1)"
    by (cases "ScoringBase_scoring cb guarded (Data X) (Some y')")
  then have "run (scorer cb (history guarded) (Data X) (Some y')) guarded = (sr, n1)"
    by (simp add: ScoringBase_scoring_def)
  from run_frame [OF this] have h1: "history n1 = history net"
    using entered by (simp split: if_splits)
  note eq = BatchScoring_on_batch_end_eq [OF phase, of net X y p]
  show ?thesis
    using eq sc h1 extr entered
    by (auto simp: BatchScoring_batch_body_def except_KeyError_def split: if_splits)
qed

text \<open>The theorem at a scorer that raises \<open>KeyError\<close> (skipped), at one that raises
  \<open>ValueError\<close> (propagated), at a recording step that fails with \<open>IndexError\<close> because
  no epoch has been opened (propagated), and at a recording step that fails with
  \<open>KeyError\<close> because the epoch has no batch slot (skipped, nothing recorded).\<close>

theorem BatchScoring_on_batch_end_catches_KeyError_witness:
  "False = on_train declining_batch_scoring
   \<and> target_extractor declining_batch_scoring 0 = Inr [0]
   \<and> fst (ScoringBase_scoring declining_batch_scoring
            (one_batch_net\<lparr>dict_infer := Some (Replay [1])\<rparr>) (Data 0) (Some [0])) = Inl KeyError
   \<and> fst (BatchScoring_on_batch_end declining_batch_scoring one_batch_net 0 0 False (Some 1)) = None
   \<and> fst (ScoringBase_scoring (declining_batch_scoring\<lparr>scorer := failing_scorer\<rparr>)
            (one_batch_net\<lparr>dict_infer := Some (Replay [1])\<rparr>) (Data 0) (Some [0])) = Inl ValueError
   \<and> fst (BatchScoring_on_batch_end (declining_batch_scoring\<lparr>scorer := failing_scorer\<rparr>)
            one_batch_net 0 0 False (Some 1)) = Some ValueError
   \<and> fst (ScoringBase_scoring valid_batch_scoring
            (fresh_net\<lparr>dict_infer := Some (Replay [1])\<rparr>) (Data 0) (Some [0])) = Inr 0.5
   \<and> record_batch (history fresh_net) (name' valid_batch_scoring) 0.5 = Inl IndexError
   \<and> fst (BatchScoring_on_batch_end valid_batch_scoring fresh_net 0 0 False (Some 1))
       = Some IndexError
   \<and> fst (ScoringBase_scoring valid_batch_scoring
            (no_batch_net\<lparr>dict_infer := Some (Replay [1])\<rparr>) (Data 0) (Some [0])) = Inr 0.5
   \<and> record_batch (history no_batch_net) (name' valid_batch_scoring) 0.5 = Inl KeyError
   \<and> fst (BatchScoring_on_batch_end valid_batch_scoring no_batch_net 0 0 False (Some 1)) = None
   \<and> history (snd (snd (BatchScoring_on_batch_end valid_batch_scoring no_batch_net 0 0 False
            (Some 1)))) = history no_batch_net"
proof -
  have g3: "no_batch_net\<lparr>dict_infer := Some (Replay [1])\<rparr>
             = (if use_caching valid_batch_scoring
                then no_batch_net\<lparr>dict_infer := Some (Replay [1])\<rparr> else no_batch_net)"
    by (simp add: valid_batch_scoring_def)
  have s3: "fst (ScoringBase_scoring valid_batch_scoring
            (no_batch_net\<lparr>dict_infer := Some (Replay [1])\<rparr>) (Data 0) (Some [0])) = Inr 0.5"
    by (simp add: ScoringBase_scoring_def valid_batch_scoring_def const_scorer_def)
  have r3: "record_batch (history no_batch_net) (name' valid_batch_scoring) 0.5 = Inl KeyError"
    by (simp add: record_batch_def no_batch_net_def)
  have p2: "False = on_train valid_batch_scoring" by (simp add: valid_batch_scoring_def)
  have x2: "target_extractor valid_batch_scoring 0 = Inr [0]"
    by (simp add: valid_batch_scoring_def extract_one_def)
  have g2: "fresh_net\<lparr>dict_infer := Some (Replay [1])\<rparr>
             = (if use_caching valid_batch_scoring
                then fresh_net\<lparr>dict_infer := Some (Replay [1])\<rparr> else fresh_net)"
    by (simp add: valid_batch_scoring_def)
  have s2: "fst (ScoringBase_scoring valid_batch_scoring
            (fresh_net\<lparr>dict_infer := Some (Replay [1])\<rparr>) (Data 0) (Some [0])) = Inr 0.5"
    by (simp add: ScoringBase_scoring_def valid_batch_scoring_def const_scorer_def)
  have r2: "record_batch (history fresh_net) (name' valid_batch_scoring) 0.5 = Inl IndexError"
    by (simp add: record_batch_def fresh_net_def)
  from BatchScoring_on_batch_end_catches_KeyError [OF p2 x2 g2, of 0 IndexError "0.5",
         THEN conjunct2, THEN mp, OF conjI [OF s2 r2]]
  have e2: "fst (BatchScoring_on_batch_end valid_batch_scoring fresh_net 0 0 False (Some 1))
       = Some IndexError" by simp
  from BatchScoring_on_batch_end_catches_KeyError [OF p2 x2 g3, of 0 KeyError "0.5",
         THEN conjunct2, THEN mp, OF conjI [OF s3 r3]]
  have e3: "fst (BatchScoring_on_batch_end valid_batch_scoring no_batch_net 0 0 False (Some 1)) = None
   \<and> history (snd (snd (BatchScoring_on_batch_end valid_batch_scoring no_batch_net 0 0 False
            (Some 1)))) = history no_batch_net" by simp
  have p: "False = on_train declining_batch_scoring"
    and p': "False = on_train (declining_batch_scoring\<lparr>scorer := failing_scorer\<rparr>)"
    by (simp_all add: declining_batch_scoring_def)
  have x: "target_extractor declining_batch_scoring 0 = Inr [0]"
    and x': "target_extractor (declining_batch_scoring\<lparr>scorer := failing_scorer\<rparr>) 0 = Inr [0]"
    by (simp_all add: declining_batch_scoring_def extract_one_def)
  have g: "one_batch_net\<lparr>dict_infer := Some (Replay [1])\<rparr>
             = (if use_caching declining_batch_scoring
                then one_batch_net\<lparr>dict_infer := Some (Replay [1])\<rparr> else one_batch_net)"
    and g': "one_batch_net\<lparr>dict_infer := Some (Replay [1])\<rparr>
             = (if use_caching (declining_batch_scoring\<lparr>scorer := failing_scorer\<rparr>)
                then one_batch_net\<lparr>dict_infer := Some (Replay [1])\<rparr> else one_batch_net)"
    by (simp_all add: declining_batch_scoring_def)
  have s: "fst (ScoringBase_scoring declining_batch_scoring
            (one_batch_net\<lparr>dict_infer := Some (Replay [1])\<rparr>) (Data 0) (Some [0])) = Inl KeyError"
    by (simp add: ScoringBase_scoring_def declining_batch_scoring_def keyerror_scorer_def)
  have s': "fst (ScoringBase_scoring (declining_batch_scoring\<lparr>scorer := failing_scorer\<rparr>)
            (one_batch_net\<lparr>dict_infer := Some (Replay [1])\<rparr>) (Data 0) (Some [0])) = Inl ValueError"
    by (simp add: ScoringBase_scoring_def declining_batch_scoring_def failing_scorer_def)
  show ?thesis
    using BatchScoring_on_batch_end_catches_KeyError [OF p x g, of 0 KeyError 0]
      BatchScoring_on_batch_end_catches_KeyError [OF p' x' g', of 0 ValueError 0]
      p x s s' s2 r2 e2 s3 r3 e3
    by simp
qed

text \<open>
  Claim C2 as stated fails: the scoring call is inside the \<^verbatim>\<open>try\<close> block, so a
  \<open>KeyError\<close> raised by the scorer does not propagate. The handler returns normally and
  leaves the callback and the model as they were.
\<close>

theorem BatchScoring_scorer_KeyError_counterexample:
  "fst (ScoringBase_scoring declining_batch_scoring
          (one_batch_net\<lparr>dict_infer := Some (Replay [1])\<rparr>) (Data 0) (Some [0])) = Inl KeyError
   \<and> BatchScoring_on_batch_end declining_batch_scoring one_batch_net 0 0 False (Some 1)
       = (None, declining_batch_scoring, one_batch_net)"
  by (simp add: BatchScoring_on_batch_end_def cache_net_infer_def BatchScoring_batch_body_def
        ScoringBase_scoring_def declining_batch_scoring_def one_batch_net_def keyerror_scorer_def
        extract_one_def except_KeyError_def)

subsection \<open>The epoch score of \<^verbatim>\<open>BatchScoring\<close>\<close>

lemma batch_values_Inr:
  "h \<noteq> [] \<Longrightarrow> scored_batches (batches (last h)) k \<noteq> [] \<Longrightarrow>
     \<exists>vs. batch_values h k = Inr vs"
proof -
  assume h: "h \<noteq> []" and s: "scored_batches (batches (last h)) k \<noteq> []"
  then obtain b where "b \<in> set (batches (last h))" "b k \<noteq> None"
    by (auto simp: scored_batches_def filter_empty_conv)
  then have "List.map_filter (\<lambda>b. b k) (batches (last h)) \<noteq> []"
    by (auto simp: map_filter_def filter_empty_conv)
  with h show ?thesis by (simp add: batch_values_def Let_def)
qed

lemma map_filter_batch_pair:
  "\<forall>b\<in>set (scored_batches bs k). b sk \<noteq> None \<Longrightarrow>
     List.map_filter (batch_pair sk k) bs = map (\<lambda>b. (the (b sk), the (b k))) (scored_batches bs k)"
proof (induction bs)
  case Nil
  then show ?case by (simp add: map_filter_def scored_batches_def)
next
  case (Cons b bs)
  then have IH: "List.map_filter (batch_pair sk k) bs
                   = map (\<lambda>b. (the (b sk), the (b k))) (scored_batches bs k)"
    by (simp add: scored_batches_def)
  show ?case
  proof (cases "b k")
    case None
    then have "batch_pair sk k b = None" by (simp add: batch_pair_def split: option.splits)
    with None IH show ?thesis by (simp add: map_filter_simps scored_batches_def)
  next
    case (Some v)
    with Cons.prems obtain w where w: "b sk = Some w" by (auto simp: scored_batches_def)
    with Some have "batch_pair sk k b = Some (w, v)" by (simp add: batch_pair_def)
    with Some w IH show ?thesis by (simp add: map_filter_simps scored_batches_def)
  qed
qed

lemma sum_list_map2_pairs:
  "sum_list (map2 (*) (map snd ps) (map fst ps)) = (\<Sum>p\<leftarrow>ps. fst p * snd (p :: real \<times> real))"
  by (induction ps) (auto simp: mult.commute)

lemma get_avg_score_weighted_mean:
  assumes h: "h \<noteq> []"
      and key: "sk = (if on_train cb then ''train_batch_size'' else ''valid_batch_size'')"
      and scored: "scored_batches (batches (last h)) (name' cb) \<noteq> []"
      and sized: "\<forall>b\<in>set (scored_batches (batches (last h)) (name' cb)). b sk \<noteq> None"
      and total: "(\<Sum>b\<leftarrow>scored_batches (batches (last h)) (name' cb). the (b sk)) \<noteq> 0"
  shows "BatchScoring_get_avg_score cb h = Inr (spec_weighted_mean (batches (last h)) sk (name' cb))"
proof -
  let ?sb = "scored_batches (batches (last h)) (name' cb)"
  let ?ps = "map (\<lambda>b. (the (b sk), the (b (name' cb)))) ?sb"
  have mf: "List.map_filter (batch_pair sk (name' cb)) (batches (last h)) = ?ps"
    by (rule map_filter_batch_pair [OF sized])
  have ne: "?ps \<noteq> []" using scored by simp
  have bp: "batch_pairs h sk (name' cb) = Inr ?ps"
    using h mf ne by (simp add: batch_pairs_def Let_def)
  have w: "sum_list (map fst ?ps) = (\<Sum>b\<leftarrow>?sb. the (b sk))"
    by (simp add: comp_def)
  have n: "sum_list (map2 (*) (map snd ?ps) (map fst ?ps))
             = (\<Sum>b\<leftarrow>?sb. the (b sk) * the (b (name' cb)))"
    unfolding sum_list_map2_pairs by (simp add: comp_def)
  have "np_average (map snd ?ps) (map fst ?ps)
          = Inr (spec_weighted_mean (batches (last h)) sk (name' cb))"
    unfolding np_average_def n w using total by (simp add: spec_weighted_mean_def)
  then show ?thesis
    using bp ne key by (simp add: BatchScoring_get_avg_score_def unzip_pairs_def)
qed

text \<open>What \<^verbatim>\<open>history.record\<close> changes.\<close>

lemma record_epoch_last:
  "record_epoch h k v = Inr h' \<Longrightarrow> h' \<noteq> [] \<and> cols (last h') = (cols (last h))(k \<mapsto> v)
      \<and> batches (last h') = batches (last h) \<and> butlast h' = butlast h"
  by (auto simp: record_epoch_def split: if_splits)

lemma record_epoch_Inr: "h \<noteq> [] \<Longrightarrow> \<exists>h'. record_epoch h k v = Inr h'"
  by (simp add: record_epoch_def)

lemma name_best_neq: "(n :: string) @ ''_best'' \<noteq> n"
  by (metis append_self_conv list.distinct(1))

lemma on_epoch_end_weighted_mean:
  fixes cb :: "('x, 'v, 'a, 'z) scoring_base_scheme" and net :: "('x, 'v) net"
  assumes h: "history net \<noteq> []"
      and key: "size_key = (if on_train cb then ''train_batch_size'' else ''valid_batch_size'')"
      and scored: "scored_batches (batches (last (history net))) (name' cb) \<noteq> []"
      and sized: "\<forall>b\<in>set (scored_batches (batches (last (history net))) (name' cb)). b size_key \<noteq> None"
      and total: "(\<Sum>b\<leftarrow>scored_batches (batches (last (history net))) (name' cb). the (b size_key)) \<noteq> 0"
  shows "fst (BatchScoring_on_epoch_end cb net) = None
       \<and> cols (last (history (snd (snd (BatchScoring_on_epoch_end cb net))))) (name' cb)
           = Some (Num (spec_weighted_mean (batches (last (history net))) size_key (name' cb)))"
proof -
  let ?m = "spec_weighted_mean (batches (last (history net))) size_key (name' cb)"
  obtain vs where bv: "batch_values (history net) (name' cb) = Inr vs"
    using batch_values_Inr [OF h scored] by blast
  have avg: "BatchScoring_get_avg_score cb (history net) = Inr ?m"
    by (rule get_avg_score_weighted_mean [OF h key scored sized total])
  obtain h1 where r1: "record_epoch (history net) (name' cb) (Num ?m) = Inr h1"
    using record_epoch_Inr [OF h] by blast
  note l1 = record_epoch_last [OF r1]
  show ?thesis
  proof (cases "ScoringBase_is_best_score cb ?m")
    case None
    then show ?thesis using bv avg r1 l1
      by (simp add: BatchScoring_on_epoch_end_def Let_def)
  next
    case (Some b)
    obtain h2 where r2: "record_epoch h1 (name' cb @ ''_best'') (Flag b) = Inr h2"
      using record_epoch_Inr [of h1] l1 by blast
    note l2 = record_epoch_last [OF r2]
    show ?thesis using Some bv avg r1 r2 l1 l2 name_best_neq [of "name' cb"]
      by (simp add: BatchScoring_on_epoch_end_def Let_def)
  qed
qed

lemma three_batches_mean:
  "cols (last (history (snd (snd (BatchScoring_on_epoch_end valid_batch_scoring three_batches_net)))))
       ''my_score'' = Some (Num 0.23)"
  by (simp add: BatchScoring_on_epoch_end_def three_batches_net_def valid_batch_scoring_def
     batch_values_def map_filter_simps BatchScoring_get_avg_score_def batch_pairs_def batch_pair_def
     unzip_pairs_def np_average_def ScoringBase_is_best_score_def record_epoch_def Let_def)

text \<open>
  Claim C3. When the current epoch has at least one batch with a score recorded under the
  strategy's name, every such batch declares its size under the size key of the
  strategy's phase, and the sizes do not sum to zero, \<^verbatim>\<open>BatchScoring.on_epoch_end\<close>
  returns normally and the epoch-level entry under the strategy's name is the
  batch-size-weighted mean of the recorded batch scores. In particular, for the batch
  sizes \<open>[2, 3, 5]\<close> and the batch scores \<open>[0.1, 0.2, 0.3]\<close> the recorded epoch score is
  \<open>(2 * 0.1 + 3 * 0.2 + 5 * 0.3) / 10 = 0.23\<close>.
\<close>

theorem BatchScoring_epoch_score_is_weighted_mean:
  fixes cb :: "('x, 'v, 'a, 'z) scoring_base_scheme" and net :: "('x, 'v) net"
  shows "(history net \<noteq> []
          \<and> size_key = (if on_train cb then ''train_batch_size'' else ''valid_batch_size'')
          \<and> scored_batches (batches (last (history net))) (name' cb) \<noteq> []
          \<and> (\<forall>b\<in>set (scored_batches (batches (last (history net))) (name' cb)). b size_key \<noteq> None)
          \<and> (\<Sum>b\<leftarrow>scored_batches (batches (last (history net))) (name' cb). the (b size_key)) \<noteq> 0
          \<longrightarrow> fst (BatchScoring_on_epoch_end cb net) = None
            \<and> cols (last (history (snd (snd (BatchScoring_on_epoch_end cb net))))) (name' cb)
                = Some (Num (spec_weighted_mean (batches (last (history net))) size_key (name' cb))))
       \<and> map (\<lambda>b. (b ''valid_batch_size'', b ''my_score'')) (batches (last (history three_batches_net)))
           = [(Some 2, Some 0.1), (Some 3, Some 0.2), (Some 5, Some 0.3)]
       \<and> cols (last (history (snd (snd
             (BatchScoring_on_epoch_end valid_batch_scoring three_batches_net))))) ''my_score''
           = Some (Num ((2 * 0.1 + 3 * 0.2 + 5 * 0.3) / 10))
       \<and> (2 * 0.1 + 3 * 0.2 + 5 * 0.3) / 10 = (0.23 :: real)"
proof (intro conjI impI)
  assume a: "history net \<noteq> []
          \<and> size_key = (if on_train cb then ''train_batch_size'' else ''valid_batch_size'')
          \<and> scored_batches (batches (last (history net))) (name' cb) \<noteq> []
          \<and> (\<forall>b\<in>set (scored_batches (batches (last (history net))) (name' cb)). b size_key \<noteq> None)
          \<and> (\<Sum>b\<leftarrow>scored_batches (batches (last (history net))) (name' cb). the (b size_key)) \<noteq> 0"
  then have h: "history net \<noteq> []"
    and key: "size_key = (if on_train cb then ''train_batch_size'' else ''valid_batch_size'')"
    and scored: "scored_batches (batches (last (history net))) (name' cb) \<noteq> []"
    and sized: "\<forall>b\<in>set (scored_batches (batches (last (history net))) (name' cb)). b size_key \<noteq> None"
    and total: "(\<Sum>b\<leftarrow>scored_batches (batches (last (history net))) (name' cb). the (b size_key)) \<noteq> 0"
    by blast+
  have r: "fst (BatchScoring_on_epoch_end cb net) = None
       \<and> cols (last (history (snd (snd (BatchScoring_on_epoch_end cb net))))) (name' cb)
           = Some (Num (spec_weighted_mean (batches (last (history net))) size_key (name' cb)))"
    by (rule on_epoch_end_weighted_mean [OF h key scored sized total])
  from r show "fst (BatchScoring_on_epoch_end cb net) = None" by simp
  from r show "cols (last (history (snd (snd (BatchScoring_on_epoch_end cb net))))) (name' cb)
           = Some (Num (spec_weighted_mean (batches (last (history net))) size_key (name' cb)))"
    by simp
next
  show "map (\<lambda>b. (b ''valid_batch_size'', b ''my_score'')) (batches (last (history three_batches_net)))
           = [(Some 2, Some 0.1), (Some 3, Some 0.2), (Some 5, Some 0.3)]"
    by (simp add: three_batches_net_def)
next
  show "cols (last (history (snd (snd
             (BatchScoring_on_epoch_end valid_batch_scoring three_batches_net))))) ''my_score''
           = Some (Num ((2 * 0.1 + 3 * 0.2 + 5 * 0.3) / 10))"
    using three_batches_mean by simp
next
  show "(2 * 0.1 + 3 * 0.2 + 5 * 0.3) / 10 = (0.23 :: real)" by simp
qed

text \<open>The general statement at the three batches: its hypotheses hold there and its
  conclusion is the score \<open>0.23\<close>.\<close>

theorem BatchScoring_epoch_score_is_weighted_mean_witness:
  "history three_batches_net \<noteq> []
   \<and> scored_batches (batches (last (history three_batches_net))) (name' valid_batch_scoring) \<noteq> []
   \<and> list_all (\<lambda>b. b ''valid_batch_size'' \<noteq> None)
        (scored_batches (batches (last (history three_batches_net))) (name' valid_batch_scoring))
   \<and> (\<Sum>b\<leftarrow>scored_batches (batches (last (history three_batches_net))) (name' valid_batch_scoring).
          the (b ''valid_batch_size'')) = 10
   \<and> spec_weighted_mean (batches (last (history three_batches_net))) ''valid_batch_size'' ''my_score''
       = 0.23
   \<and> fst (BatchScoring_on_epoch_end valid_batch_scoring three_batches_net) = None
   \<and> cols (last (history (snd (snd
         (BatchScoring_on_epoch_end valid_batch_scoring three_batches_net))))) ''my_score''
       = Some (Num 0.23)"
proof -
  have 1: "history three_batches_net \<noteq> []" by (simp add: three_batches_net_def)
  have 2: "''valid_batch_size''
             = (if on_train valid_batch_scoring then ''train_batch_size'' else ''valid_batch_size'')"
    by (simp add: valid_batch_scoring_def)
  have n: "name' valid_batch_scoring = ''my_score''" by (simp add: valid_batch_scoring_def)
  have sb: "scored_batches (batches (last (history three_batches_net))) ''my_score''
              = batches (last (history three_batches_net))"
    by (simp add: three_batches_net_def scored_batches_def del: not_None_eq)
  have 3: "scored_batches (batches (last (history three_batches_net))) (name' valid_batch_scoring) \<noteq> []"
    unfolding n sb by (simp add: three_batches_net_def)
  have 4: "\<forall>b\<in>set (scored_batches (batches (last (history three_batches_net))) (name' valid_batch_scoring)).
          b ''valid_batch_size'' \<noteq> None"
    unfolding n sb by (simp add: three_batches_net_def)
  have 5: "(\<Sum>b\<leftarrow>scored_batches (batches (last (history three_batches_net))) (name' valid_batch_scoring).
          the (b ''valid_batch_size'')) = 10"
    unfolding n sb by (simp add: three_batches_net_def)
  have 6: "spec_weighted_mean (batches (last (history three_batches_net))) ''valid_batch_size'' ''my_score''
       = 0.23"
    unfolding spec_weighted_mean_def sb by (simp add: three_batches_net_def)
  have nz: "(\<Sum>b\<leftarrow>scored_batches (batches (last (history three_batches_net))) (name' valid_batch_scoring).
          the (b ''valid_batch_size'')) \<noteq> 0"
    unfolding 5 by simp
  have "fst (BatchScoring_on_epoch_end valid_batch_scoring three_batches_net) = None
      \<and> cols (last (history (snd (snd (BatchScoring_on_epoch_end valid_batch_scoring three_batches_net)))))
            (name' valid_batch_scoring)
          = Some (Num (spec_weighted_mean (batches (last (history three_batches_net)))
                         ''valid_batch_size'' (name' valid_batch_scoring)))"
    using BatchScoring_epoch_score_is_weighted_mean
      [of three_batches_net "''valid_batch_size''" valid_batch_scoring,
       THEN conjunct1, THEN mp, OF conjI [OF 1 conjI [OF 2 conjI [OF 3 conjI [OF 4 nz]]]]] .
  then have 7: "fst (BatchScoring_on_epoch_end valid_batch_scoring three_batches_net) = None
      \<and> cols (last (history (snd (snd (BatchScoring_on_epoch_end valid_batch_scoring three_batches_net)))))
            ''my_score'' = Some (Num 0.23)"
    unfolding n 6 .
  have la: "list_all (\<lambda>b. b ''valid_batch_size'' \<noteq> None)
        (scored_batches (batches (last (history three_batches_net))) (name' valid_batch_scoring))"
    using 4 by (simp add: list_all_iff)
  show ?thesis
    by (intro conjI 1 3 la 5 6 7 [THEN conjunct1] 7 [THEN conjunct2])
qed

subsection \<open>An epoch without batch scores\<close>

lemma batch_values_KeyError:
  "h \<noteq> [] \<Longrightarrow> scored_batches (batches (last h)) k = [] \<Longrightarrow> batch_values h k = Inl KeyError"
proof -
  assume h: "h \<noteq> []" and s: "scored_batches (batches (last h)) k = []"
  then have "\<forall>b\<in>set (batches (last h)). b k = None"
    by (auto simp: scored_batches_def filter_empty_conv)
  then have "List.map_filter (\<lambda>b. b k) (batches (last h)) = []"
    by (auto simp: map_filter_def filter_empty_conv)
  with h show ?thesis by (simp add: batch_values_def)
qed

text \<open>
  Claim C7. If no batch of the current epoch has a score recorded under the strategy's
  name, \<^verbatim>\<open>BatchScoring.on_epoch_end\<close> is a complete no-op: it returns normally, the
  callback (with its running best) is unchanged and the model (with its history: no
  epoch-level entry, no is-best flag) is unchanged.
\<close>

theorem BatchScoring_on_epoch_end_noop:
  fixes cb :: "('x, 'v, 'a, 'z) scoring_base_scheme" and net :: "('x, 'v) net"
  assumes "history net \<noteq> []"
      and "scored_batches (batches (last (history net))) (name' cb) = []"
  shows "BatchScoring_on_epoch_end cb net = (None, cb, net)"
  using batch_values_KeyError [OF assms]
  by (simp add: BatchScoring_on_epoch_end_def except_KeyError_def)

text \<open>The theorem at an epoch whose only batch has no entry at all.\<close>

theorem BatchScoring_on_epoch_end_noop_witness:
  "history one_batch_net \<noteq> []
   \<and> scored_batches (batches (last (history one_batch_net))) (name' valid_batch_scoring) = []
   \<and> BatchScoring_on_epoch_end valid_batch_scoring one_batch_net
        = (None, valid_batch_scoring, one_batch_net)"
proof -
  have 1: "history one_batch_net \<noteq> []" by (simp add: one_batch_net_def)
  have 2: "scored_batches (batches (last (history one_batch_net))) (name' valid_batch_scoring) = []"
    by (simp add: one_batch_net_def scored_batches_def)
  from BatchScoring_on_epoch_end_noop [OF 1 2] 1 2 show ?thesis by simp
qed

subsection \<open>Batch events of the other phase\<close>

text \<open>
  Claim C8. For a batch event whose training flag differs from the strategy's
  \<^verbatim>\<open>on_train\<close> setting, \<^verbatim>\<open>BatchScoring.on_batch_end\<close> and \<^verbatim>\<open>EpochScoring.on_batch_end\<close>
  return normally and leave everything as it was: the callback (running best, references
  to the caches), the list objects of the caches, and the model with its history.
\<close>

theorem on_batch_end_other_phase:
  fixes cb :: "('x, 'v, 'a, 'z) scoring_base_scheme" and ecb :: "('x, 'v, 'a) epoch_scoring"
    and net :: "('x, 'v) net"
  shows "(training \<noteq> on_train cb \<longrightarrow>
            BatchScoring_on_batch_end cb net X y training y_pred = (None, cb, net))
       \<and> (training \<noteq> on_train ecb \<longrightarrow>
            EpochScoring_on_batch_end ecb net st y p training = (None, ecb, net, st))"
  by (simp add: BatchScoring_on_batch_end_def EpochScoring_on_batch_end_def)

text \<open>The theorem at a training batch handed to two validation callbacks.\<close>

theorem on_batch_end_other_phase_witness:
  "True \<noteq> on_train valid_batch_scoring
   \<and> BatchScoring_on_batch_end valid_batch_scoring one_batch_net 0 0 True (Some 1)
       = (None, valid_batch_scoring, one_batch_net)
   \<and> True \<noteq> on_train valid_epoch_scoring
   \<and> EpochScoring_on_batch_end valid_epoch_scoring one_batch_net two_lists_store 0 1 True
       = (None, valid_epoch_scoring, one_batch_net, two_lists_store)"
proof -
  have 1: "True \<noteq> on_train valid_batch_scoring" by (simp add: valid_batch_scoring_def)
  have 2: "True \<noteq> on_train valid_epoch_scoring" by (simp add: valid_epoch_scoring_def)
  from on_batch_end_other_phase
         [where training = True and cb = valid_batch_scoring and net = one_batch_net and X = 0
            and y = 0 and y_pred = "Some 1" and ecb = valid_epoch_scoring and st = two_lists_store
            and p = 1]
       1 2
  show ?thesis by simp
qed

subsection \<open>Comparison disabled\<close>

lemma record_epoch_entries_under:
  "record_epoch h k' v = Inr h' \<Longrightarrow> k \<noteq> k' \<Longrightarrow> entries_under h' k = entries_under h k"
proof -
  assume r: "record_epoch h k' v = Inr h'" and k: "k \<noteq> k'"
  then have ne: "h \<noteq> []" and h': "h' = butlast h @ [(last h)\<lparr>cols := (cols (last h))(k' \<mapsto> v)\<rparr>]"
    by (auto simp: record_epoch_def split: if_splits)
  have "entries_under h k = entries_under (butlast h @ [last h]) k" using ne by simp
  also have "\<dots> = entries_under h' k" unfolding h' using k by (simp add: entries_under_def)
  finally show ?thesis by simp
qed

lemma record_batch_entries_under:
  "record_batch h k' v = Inr h' \<Longrightarrow> k \<noteq> k' \<Longrightarrow> entries_under h' k = entries_under h k"
proof -
  assume r: "record_batch h k' v = Inr h'" and k: "k \<noteq> k'"
  let ?bs = "batches (last h)"
  from r have ne: "h \<noteq> []" and bne: "?bs \<noteq> []"
    and h': "h' = butlast h @ [(last h)\<lparr>batches := butlast ?bs @ [(last ?bs)(k' \<mapsto> v)]\<rparr>]"
    by (auto simp: record_batch_def split: if_splits)
  have "map (\<lambda>b. b k) ?bs = map (\<lambda>b. b k) (butlast ?bs @ [last ?bs])" using bne by simp
  also have "\<dots> = map (\<lambda>b. b k) (butlast ?bs @ [(last ?bs)(k' \<mapsto> v)])" using k by simp
  finally have b: "map (\<lambda>b. b k) ?bs = map (\<lambda>b. b k) (butlast ?bs @ [(last ?bs)(k' \<mapsto> v)])" .
  have "entries_under h k = entries_under (butlast h @ [last h]) k" using ne by simp
  also have "\<dots> = entries_under h' k" unfolding h' using b by (simp add: entries_under_def)
  finally show ?thesis by simp
qed

lemma scoring_frame:
  "ScoringBase_scoring cb n X y = (r, n') \<Longrightarrow>
     infer_method n' = infer_method n \<and> history n' = history n \<and>
     (dict_infer n = None \<longleftrightarrow> dict_infer n' = None)"
  unfolding ScoringBase_scoring_def by (rule run_frame)

lemma batch_body_entries_under:
  assumes "BatchScoring_batch_body cb X y n = (r, n')"
  shows "entries_under (history n') (name' cb @ ''_best'') = entries_under (history n) (name' cb @ ''_best'')"
proof (cases "target_extractor cb y")
  case (Inl e)
  with assms show ?thesis by (simp add: BatchScoring_batch_body_def)
next
  case (Inr y')
  obtain sr n1 where sc: "ScoringBase_scoring cb n (Data X) (Some y') = (sr, n1)"
    by (cases "ScoringBase_scoring cb n (Data X) (Some y')")
  note f = scoring_frame [OF sc]
  show ?thesis
  proof (cases sr)
    case (Inl e)
    with assms Inr sc f show ?thesis by (simp add: BatchScoring_batch_body_def)
  next
    case s: (Inr score)
    show ?thesis
    proof (cases "record_batch (history n1) (name' cb) score")
      case (Inl e)
      with assms Inr sc s f show ?thesis by (simp add: BatchScoring_batch_body_def)
    next
      case h1: (Inr h1)
      from record_batch_entries_under [OF h1 name_best_neq] assms Inr sc s f h1
      show ?thesis by (auto simp: BatchScoring_batch_body_def)
    qed
  qed
qed

lemma BatchScoring_on_batch_end_entries_under:
  "BatchScoring_on_batch_end cb net X y training y_pred = (r, cb', net') \<Longrightarrow>
     entries_under (history net') (name' cb @ ''_best'') = entries_under (history net) (name' cb @ ''_best'')"
proof -
  assume a: "BatchScoring_on_batch_end cb net X y training y_pred = (r, cb', net')"
  show ?thesis
  proof (cases "training = on_train cb")
    case False
    with a show ?thesis by (simp add: BatchScoring_on_batch_end_def)
  next
    case True
    show ?thesis
    proof (cases y_pred)
      case None
      with a True show ?thesis by (simp add: BatchScoring_on_batch_end_def)
    next
      case (Some p)
      note eq = BatchScoring_on_batch_end_eq [OF True, of net X y p]
      show ?thesis
      proof (cases "use_caching cb")
        case c: True
        obtain r1 n1 where b: "BatchScoring_batch_body cb X y (net\<lparr>dict_infer := Some (Replay [p])\<rparr>) = (r1, n1)"
          by (cases "BatchScoring_batch_body cb X y (net\<lparr>dict_infer := Some (Replay [p])\<rparr>)")
        from batch_body_entries_under [OF b] a eq c b Some show ?thesis by auto
      next
        case c: False
        obtain r1 n1 where b: "BatchScoring_batch_body cb X y net = (r1, n1)"
          by (cases "BatchScoring_batch_body cb X y net")
        from batch_body_entries_under [OF b] a eq c b Some show ?thesis by auto
      qed
    qed
  qed
qed

lemma BatchScoring_on_epoch_end_entries_under:
  assumes "lower_is_better cb = None"
      and "BatchScoring_on_epoch_end cb net = (r, cb', net')"
  shows "entries_under (history net') (name' cb @ ''_best'') = entries_under (history net) (name' cb @ ''_best'')"
  using assms record_epoch_entries_under [OF _ name_best_neq [of "name' cb"]]
  by (auto simp: BatchScoring_on_epoch_end_def ScoringBase_is_best_score_def Let_def
           split: sum.splits)


text \<open>\<^verbatim>\<open>EpochScoring.on_epoch_end\<close> either leaves callback and model alone (an exception
  before the scoring, or \<^verbatim>\<open>X_test is None\<close>), or runs its block inside the guard.\<close>

lemma epoch_body_frame:
  "EpochScoring_epoch_body cb X y n = (rc, n') \<Longrightarrow>
     infer_method n' = infer_method n \<and> (dict_infer n = None \<longleftrightarrow> dict_infer n' = None)"
  by (auto simp: EpochScoring_epoch_body_def split: sum.splits prod.splits option.splits
           dest: scoring_frame)

lemma EpochScoring_on_epoch_end_cases:
  assumes "EpochScoring_on_epoch_end cb net st dt dv = (r, cb', net')"
  obtains (unchanged) "cb' = cb" "net' = net"
            "\<forall>X yt yp. EpochScoring_scoring_inputs cb st dt dv \<noteq> Inr (Some X, yt, yp)"
        | (scored) X yt yp n1 where
            "EpochScoring_scoring_inputs cb st dt dv = Inr (Some X, yt, yp)"
            "EpochScoring_epoch_body cb X yt
               (if use_caching cb then net\<lparr>dict_infer := Some (Replay yp)\<rparr> else net) = ((r, cb'), n1)"
            "net' = (if use_caching cb then n1\<lparr>dict_infer := None\<rparr> else n1)"
proof (cases "EpochScoring_scoring_inputs cb st dt dv")
  case (Inl e)
  with assms have "cb' = cb" "net' = net" by (auto simp: EpochScoring_on_epoch_end_def)
  with Inl show ?thesis by (intro unchanged) auto
next
  case (Inr t)
  obtain Xo yt yp where t: "t = (Xo, yt, yp)" by (cases t)
  show ?thesis
  proof (cases Xo)
    case None
    with assms Inr t have "cb' = cb" "net' = net" by (auto simp: EpochScoring_on_epoch_end_def)
    with Inr t None show ?thesis by (intro unchanged) auto
  next
    case (Some X)
    have fr: "\<And>n rc n'. EpochScoring_epoch_body cb X yt n = (rc, n')
                \<Longrightarrow> (dict_infer n = None \<longleftrightarrow> dict_infer n' = None)"
      by (drule epoch_body_frame) simp
    note c = cache_net_infer_no_exit_error [of "EpochScoring_epoch_body cb X yt", OF fr,
                 where net = net and c = "use_caching cb" and ps = yp]
    let ?g = "if use_caching cb then net\<lparr>dict_infer := Some (Replay yp)\<rparr> else net"
    obtain r0 cb0 n1 where b: "EpochScoring_epoch_body cb X yt ?g = ((r0, cb0), n1)"
      by (cases "EpochScoring_epoch_body cb X yt ?g") auto
    from assms Inr t Some c b have "r = r0" "cb' = cb0"
      "net' = (if use_caching cb then n1\<lparr>dict_infer := None\<rparr> else n1)"
      by (auto simp: EpochScoring_on_epoch_end_def split: if_splits)
    with Inr t Some b show ?thesis by (intro scored [of X yt yp n1]) auto
  qed
qed

lemma epoch_body_entries_under:
  assumes "lower_is_better cb = None"
      and "EpochScoring_epoch_body cb X y n = (rc, n')"
  shows "entries_under (history n') (name' cb @ ''_best'') = entries_under (history n) (name' cb @ ''_best'')"
proof -
  obtain sr n1 where sc: "ScoringBase_scoring cb n X y = (sr, n1)"
    by (cases "ScoringBase_scoring cb n X y")
  note f = scoring_frame [OF sc]
  show ?thesis
  proof (cases sr)
    case (Inl e)
    with assms sc f show ?thesis by (auto simp: EpochScoring_epoch_body_def)
  next
    case s: (Inr score)
    show ?thesis
    proof (cases "record_epoch (history n1) (name' cb) (Num score)")
      case (Inl e)
      with assms sc s f show ?thesis by (auto simp: EpochScoring_epoch_body_def)
    next
      case h1: (Inr h1)
      from record_epoch_entries_under [OF h1 name_best_neq] assms sc s f h1
      show ?thesis by (auto simp: EpochScoring_epoch_body_def ScoringBase_is_best_score_def)
    qed
  qed
qed

lemma EpochScoring_on_epoch_end_entries_under:
  assumes l: "lower_is_better cb = None"
      and a: "EpochScoring_on_epoch_end cb net st dt dv = (r, cb', net')"
  shows "entries_under (history net') (name' cb @ ''_best'') = entries_under (history net) (name' cb @ ''_best'')"
  using a
proof (cases rule: EpochScoring_on_epoch_end_cases)
  case unchanged
  then show ?thesis by simp
next
  case (scored X yt yp n1)
  from epoch_body_entries_under [OF l scored(2)] scored(3)
  show ?thesis by (auto split: if_splits)
qed

lemma epoch_body_lower_is_better:
  "EpochScoring_epoch_body cb X y n = ((r, cb'), n') \<Longrightarrow>
     lower_is_better cb' = lower_is_better cb \<and> name' cb' = name' cb"
  by (auto simp: EpochScoring_epoch_body_def split: sum.splits prod.splits option.splits if_splits)

text \<open>
  Claim C9. For a strategy with \<^verbatim>\<open>lower_is_better=None\<close>, no handler of either strategy
  writes an entry under the key \<^verbatim>\<open><name>_best\<close>: after \<^verbatim>\<open>BatchScoring.on_batch_end\<close>,
  after \<^verbatim>\<open>BatchScoring.on_epoch_end\<close> and after any lifecycle event handled by
  \<^verbatim>\<open>EpochScoring\<close>, whatever the scorer returns or raises, the history holds under that
  key, in every epoch and every batch, exactly what it held before. The handlers leave
  \<^verbatim>\<open>lower_is_better\<close> and the name as they are, so this holds along any sequence of
  events and scores.
\<close>

theorem no_best_flag_without_comparison:
  fixes cb :: "('x, 'v, 'a, 'z) scoring_base_scheme" and ecb :: "('x, 'v, 'a) epoch_scoring"
    and net :: "('x, 'v) net"
  shows "(lower_is_better cb = None \<longrightarrow>
            entries_under (history (snd (snd (BatchScoring_on_batch_end cb net X y training y_pred))))
                (name' cb @ ''_best'')
              = entries_under (history net) (name' cb @ ''_best'')
          \<and> entries_under (history (snd (snd (BatchScoring_on_epoch_end cb net)))) (name' cb @ ''_best'')
              = entries_under (history net) (name' cb @ ''_best'')
          \<and> lower_is_better (fst (snd (BatchScoring_on_batch_end cb net X y training y_pred))) = None
          \<and> lower_is_better (fst (snd (BatchScoring_on_epoch_end cb net))) = None
          \<and> name' (fst (snd (BatchScoring_on_batch_end cb net X y training y_pred))) = name' cb
          \<and> name' (fst (snd (BatchScoring_on_epoch_end cb net))) = name' cb)
       \<and> (lower_is_better ecb = None \<longrightarrow>
            entries_under (history (fst (snd (snd (EpochScoring_notify ecb net st ev)))))
                (name' ecb @ ''_best'')
              = entries_under (history net) (name' ecb @ ''_best'')
          \<and> lower_is_better (fst (snd (EpochScoring_notify ecb net st ev))) = None
          \<and> name' (fst (snd (EpochScoring_notify ecb net st ev))) = name' ecb)"
proof (intro conjI impI)
  obtain r cb' net' where a: "BatchScoring_on_batch_end cb net X y training y_pred = (r, cb', net')"
    by (cases "BatchScoring_on_batch_end cb net X y training y_pred")
  from BatchScoring_on_batch_end_entries_under [OF a] a
  show "entries_under (history (snd (snd (BatchScoring_on_batch_end cb net X y training y_pred))))
                (name' cb @ ''_best'')
              = entries_under (history net) (name' cb @ ''_best'')" by simp
  have cb': "cb' = cb" using a
    by (auto simp: BatchScoring_on_batch_end_def split: if_splits option.splits prod.splits)
  assume l: "lower_is_better cb = None"
  from a cb' l show "lower_is_better (fst (snd (BatchScoring_on_batch_end cb net X y training y_pred))) = None"
    by simp
  from a cb' show "name' (fst (snd (BatchScoring_on_batch_end cb net X y training y_pred))) = name' cb"
    by simp
  obtain r2 cb2 net2 where b: "BatchScoring_on_epoch_end cb net = (r2, cb2, net2)"
    by (cases "BatchScoring_on_epoch_end cb net")
  from BatchScoring_on_epoch_end_entries_under [OF l b] b
  show "entries_under (history (snd (snd (BatchScoring_on_epoch_end cb net)))) (name' cb @ ''_best'')
              = entries_under (history net) (name' cb @ ''_best'')" by simp
  have "lower_is_better cb2 = lower_is_better cb \<and> name' cb2 = name' cb" using b
    by (auto simp: BatchScoring_on_epoch_end_def Let_def split: sum.splits option.splits if_splits)
  with b l show "lower_is_better (fst (snd (BatchScoring_on_epoch_end cb net))) = None"
    and "name' (fst (snd (BatchScoring_on_epoch_end cb net))) = name' cb" by simp_all
next
  assume l: "lower_is_better ecb = None"
  have "entries_under (history (fst (snd (snd (EpochScoring_notify ecb net st ev)))))
                (name' ecb @ ''_best'')
              = entries_under (history net) (name' ecb @ ''_best'')
          \<and> lower_is_better (fst (snd (EpochScoring_notify ecb net st ev))) = lower_is_better ecb
          \<and> name' (fst (snd (EpochScoring_notify ecb net st ev))) = name' ecb"
  proof (cases ev)
    case (EpochBegin dt dv)
    then show ?thesis
      by (simp add: EpochScoring_on_epoch_begin_def EpochScoring_initialize_cache_def Let_def
               split: prod.splits)
  next
    case (BatchEnd y p tr)
    then show ?thesis
      by (simp add: EpochScoring_on_batch_end_def Let_def split: option.splits)
  next
    case (EpochEnd dt dv)
    obtain r cb' net' where a: "EpochScoring_on_epoch_end ecb net st dt dv = (r, cb', net')"
      by (cases "EpochScoring_on_epoch_end ecb net st dt dv")
    have "lower_is_better cb' = lower_is_better ecb \<and> name' cb' = name' ecb"
      using a
    proof (cases rule: EpochScoring_on_epoch_end_cases)
      case unchanged
      then show ?thesis by simp
    next
      case (scored X yt yp n1)
      from epoch_body_lower_is_better [OF scored(2)] show ?thesis .
    qed
    with EpochScoring_on_epoch_end_entries_under [OF l a] a EpochEnd show ?thesis by simp
  next
    case TrainEnd
    then show ?thesis
      by (simp add: EpochScoring_on_train_end_def EpochScoring_initialize_cache_def
               split: prod.splits)
  qed
  with l show "entries_under (history (fst (snd (snd (EpochScoring_notify ecb net st ev)))))
                (name' ecb @ ''_best'')
              = entries_under (history net) (name' ecb @ ''_best'')"
    and "lower_is_better (fst (snd (EpochScoring_notify ecb net st ev))) = None"
    and "name' (fst (snd (EpochScoring_notify ecb net st ev))) = name' ecb" by simp_all
qed


text \<open>The theorem at the end of an epoch with three scored batches (for
  \<^verbatim>\<open>BatchScoring\<close>) and at the end of an epoch scored \<open>0.5\<close> (for \<^verbatim>\<open>EpochScoring\<close>).\<close>

theorem no_best_flag_without_comparison_witness:
  "lower_is_better uncompared_batch_scoring = None
   \<and> entries_under (history (snd (snd (BatchScoring_on_epoch_end uncompared_batch_scoring
          three_batches_net)))) ''my_score_best'' = [(None, [None, None, None])]
   \<and> lower_is_better uncompared_epoch_scoring = None
   \<and> entries_under (history (fst (snd (snd (EpochScoring_notify uncompared_epoch_scoring
          one_batch_net two_lists_store (EpochEnd None (Some (Dataset (Some 0) (Some 0))))))))) ''my_score_best''
        = [(None, [None])]"
proof -
  have 1: "lower_is_better uncompared_batch_scoring = None"
    and 2: "lower_is_better uncompared_epoch_scoring = None"
    by (simp_all add: uncompared_batch_scoring_def uncompared_epoch_scoring_def)
  have n: "name' uncompared_batch_scoring @ ''_best'' = ''my_score_best''"
    "name' uncompared_epoch_scoring @ ''_best'' = ''my_score_best''"
    by (simp_all add: uncompared_batch_scoring_def uncompared_epoch_scoring_def
         valid_batch_scoring_def valid_epoch_scoring_def)
  have e: "entries_under (history three_batches_net) ''my_score_best'' = [(None, [None, None, None])]"
    "entries_under (history one_batch_net) ''my_score_best'' = [(None, [None])]"
    by (simp_all add: entries_under_def three_batches_net_def one_batch_net_def)
  from no_best_flag_without_comparison
         [where cb = uncompared_batch_scoring and net = three_batches_net
            and ecb = uncompared_epoch_scoring, THEN conjunct1, THEN mp, OF 1]
  have a: "entries_under (history (snd (snd (BatchScoring_on_epoch_end uncompared_batch_scoring
          three_batches_net)))) ''my_score_best'' = [(None, [None, None, None])]"
    unfolding n e by simp
  from no_best_flag_without_comparison
         [where cb = uncompared_batch_scoring and net = one_batch_net
            and ecb = uncompared_epoch_scoring and st = two_lists_store
            and ev = "EpochEnd None (Some (Dataset (Some 0) (Some 0)))",
          THEN conjunct2, THEN mp, OF 2]
  have b: "entries_under (history (fst (snd (snd (EpochScoring_notify uncompared_epoch_scoring
          one_batch_net two_lists_store (EpochEnd None (Some (Dataset (Some 0) (Some 0))))))))) ''my_score_best''
        = [(None, [None])]"
    unfolding n e by simp
  from 1 2 a b show ?thesis by simp
qed

subsection \<open>The history key\<close>

lemma initialize_name:
  "name cb = None \<Longrightarrow> ScoringBase_get_name cb = Inr n \<Longrightarrow>
     fst (ScoringBase_initialize cb) = None \<and> name' (snd (ScoringBase_initialize cb)) = n"
  by (simp add: ScoringBase_initialize_def ScoringBase_get_name_def Let_def)

lemma EpochScoring_initialize_name:
  "fst (EpochScoring_initialize ecb st) = fst (ScoringBase_initialize ecb)
   \<and> name' (fst (snd (EpochScoring_initialize ecb st))) = name' (snd (ScoringBase_initialize ecb))"
  by (cases "ScoringBase_initialize ecb")
     (auto simp: EpochScoring_initialize_def EpochScoring_initialize_cache_def
           split: option.splits prod.splits)

lemma BatchScoring_on_epoch_end_best_key:
  assumes a: "BatchScoring_on_epoch_end cb net = (None, cb', net')"
      and h: "history net \<noteq> []"
      and s: "scored_batches (batches (last (history net))) (name' cb) \<noteq> []"
      and l: "lower_is_better cb = Some l"
  shows "\<exists>s. cols (last (history net')) (name' cb) = Some (Num s)
           \<and> cols (last (history net')) (name' cb @ ''_best'')
               = Some (Flag (if l then ext_less (Fin s) (best_score' cb)
                             else ext_less (best_score' cb) (Fin s)))"
proof -
  obtain vs where bv: "batch_values (history net) (name' cb) = Inr vs"
    using batch_values_Inr [OF h s] by blast
  from a bv obtain m where avg: "BatchScoring_get_avg_score cb (history net) = Inr m"
    by (cases "BatchScoring_get_avg_score cb (history net)")
       (auto simp: BatchScoring_on_epoch_end_def)
  obtain h1 where r1: "record_epoch (history net) (name' cb) (Num m) = Inr h1"
    using record_epoch_Inr [OF h] by blast
  note l1 = record_epoch_last [OF r1]
  let ?b = "if l then ext_less (Fin m) (best_score' cb) else ext_less (best_score' cb) (Fin m)"
  have ib: "ScoringBase_is_best_score cb m = Some ?b"
    using l by (simp add: ScoringBase_is_best_score_def)
  obtain h2 where r2: "record_epoch h1 (name' cb @ ''_best'') (Flag ?b) = Inr h2"
    using record_epoch_Inr [of h1] l1 by blast
  note l2 = record_epoch_last [OF r2]
  have "net' = net\<lparr>history := h2\<rparr>"
    using a bv avg r1 ib r2 by (simp add: BatchScoring_on_epoch_end_def Let_def)
  then show ?thesis using l1 l2 name_best_neq [of "name' cb"] by (intro exI [of _ m]) simp
qed

lemma epoch_body_best_key:
  assumes a: "EpochScoring_epoch_body cb X y n = ((None, cb'), n')"
      and l: "lower_is_better cb = Some l"
  shows "\<exists>s. cols (last (history n')) (name' cb) = Some (Num s)
           \<and> cols (last (history n')) (name' cb @ ''_best'')
               = Some (Flag (if l then ext_less (Fin s) (best_score' cb)
                             else ext_less (best_score' cb) (Fin s)))"
proof -
  obtain sr n1 where sc: "ScoringBase_scoring cb n X y = (sr, n1)"
    by (cases "ScoringBase_scoring cb n X y")
  from a sc obtain m where m: "sr = Inr m"
    by (cases sr) (auto simp: EpochScoring_epoch_body_def)
  from a sc m obtain h1 where r1: "record_epoch (history n1) (name' cb) (Num m) = Inr h1"
    by (cases "record_epoch (history n1) (name' cb) (Num m)")
       (auto simp: EpochScoring_epoch_body_def)
  note l1 = record_epoch_last [OF r1]
  let ?b = "if l then ext_less (Fin m) (best_score' cb) else ext_less (best_score' cb) (Fin m)"
  have ib: "ScoringBase_is_best_score cb m = Some ?b"
    using l by (simp add: ScoringBase_is_best_score_def)
  from a sc m r1 ib obtain h2 where r2: "record_epoch h1 (name' cb @ ''_best'') (Flag ?b) = Inr h2"
    by (cases "record_epoch h1 (name' cb @ ''_best'') (Flag ?b)")
       (auto simp: EpochScoring_epoch_body_def)
  note l2 = record_epoch_last [OF r2]
  have "history n' = h2"
    using a sc m r1 ib r2 by (auto simp: EpochScoring_epoch_body_def)
  then show ?thesis using l1 l2 name_best_neq [of "name' cb"] by (intro exI [of _ m]) simp
qed

lemma EpochScoring_on_epoch_end_best_key:
  assumes a: "EpochScoring_on_epoch_end cb net st dt dv = (None, cb', net')"
      and i: "EpochScoring_scoring_inputs cb st dt dv = Inr (Some X, yt, yp)"
      and l: "lower_is_better cb = Some l"
  shows "\<exists>s. cols (last (history net')) (name' cb) = Some (Num s)
           \<and> cols (last (history net')) (name' cb @ ''_best'')
               = Some (Flag (if l then ext_less (Fin s) (best_score' cb)
                             else ext_less (best_score' cb) (Fin s)))"
  using a
proof (cases rule: EpochScoring_on_epoch_end_cases)
  case unchanged
  with i show ?thesis by simp
next
  case (scored X' yt' yp' n1)
  from epoch_body_best_key [OF scored(2) l] scored(3) show ?thesis by (auto split: if_splits)
qed

text \<open>Keys other than the name and the name with \<^verbatim>\<open>_best\<close> are not written.\<close>

lemma BatchScoring_on_epoch_end_other_keys:
  assumes "BatchScoring_on_epoch_end cb net = (r, cb', net')"
      and "k \<noteq> name' cb" and "k \<noteq> name' cb @ ''_best''"
  shows "entries_under (history net') k = entries_under (history net) k"
proof -
  have 1: "\<And>h v h'. record_epoch h (name' cb) v = Inr h' \<Longrightarrow> entries_under h' k = entries_under h k"
    and 2: "\<And>h v h'. record_epoch h (name' cb @ ''_best'') v = Inr h' \<Longrightarrow> entries_under h' k = entries_under h k"
    using assms(2,3) by (auto intro: record_epoch_entries_under)
  show ?thesis using assms(1)
    by (auto simp: BatchScoring_on_epoch_end_def Let_def 1 2 split: sum.splits option.splits)
qed

lemma epoch_body_other_keys:
  assumes "EpochScoring_epoch_body cb X y n = (rc, n')"
      and "k \<noteq> name' cb" and "k \<noteq> name' cb @ ''_best''"
  shows "entries_under (history n') k = entries_under (history n) k"
proof -
  have 1: "\<And>h v h'. record_epoch h (name' cb) v = Inr h' \<Longrightarrow> entries_under h' k = entries_under h k"
    and 2: "\<And>h v h'. record_epoch h (name' cb @ ''_best'') v = Inr h' \<Longrightarrow> entries_under h' k = entries_under h k"
    using assms(2,3) by (auto intro: record_epoch_entries_under)
  obtain sr n1 where sc: "ScoringBase_scoring cb n X y = (sr, n1)"
    by (cases "ScoringBase_scoring cb n X y")
  note f = scoring_frame [OF sc]
  show ?thesis using assms(1) sc f
    by (auto simp: EpochScoring_epoch_body_def 1 2 split: sum.splits option.splits)
qed

lemma EpochScoring_on_epoch_end_other_keys:
  assumes a: "EpochScoring_on_epoch_end cb net st dt dv = (r, cb', net')"
      and "k \<noteq> name' cb" and "k \<noteq> name' cb @ ''_best''"
  shows "entries_under (history net') k = entries_under (history net) k"
  using a
proof (cases rule: EpochScoring_on_epoch_end_cases)
  case unchanged
  then show ?thesis by simp
next
  case (scored X yt yp n1)
  from epoch_body_other_keys [OF scored(2) assms(2,3)] scored(3)
  show ?thesis by (auto split: if_splits)
qed


text \<open>
  Claim C10. When no explicit name is supplied, \<^verbatim>\<open>initialize\<close> (of \<^verbatim>\<open>ScoringBase\<close>, which
  \<^verbatim>\<open>EpochScoring.initialize\<close> calls) succeeds and sets the history key \<^verbatim>\<open>name_\<close> from the
  scoring specification: \<^verbatim>\<open>score\<close> if it is absent, the string itself if it is a string,
  the wrapped function's \<^verbatim>\<open>__name__\<close> if it is a \<^verbatim>\<open>functools.partial\<close>, and the
  callable's \<^verbatim>\<open>__name__\<close> otherwise. The improvement flag is recorded under that key with
  \<^verbatim>\<open>_best\<close> appended: whenever an \<^verbatim>\<open>on_epoch_end\<close> of a strategy with comparison enabled
  has scored and returns normally, the current epoch holds a score \<open>v\<close> under \<^verbatim>\<open>name_\<close> and
  the flag of \<open>v\<close> under \<^verbatim>\<open>name_ + '_best'\<close>; and no \<^verbatim>\<open>on_epoch_end\<close> changes an entry
  under any other key.
\<close>

theorem history_key_from_scoring:
  fixes cb :: "('x, 'v, 'a, 'z) scoring_base_scheme" and ecb :: "('x, 'v, 'a) epoch_scoring"
    and net :: "('x, 'v) net"
  shows "(name cb = None \<longrightarrow>
            (scoring cb = ScoringNone \<longrightarrow>
               fst (ScoringBase_initialize cb) = None
               \<and> name' (snd (ScoringBase_initialize cb)) = ''score'')
          \<and> (scoring cb = ScoringStr s \<longrightarrow>
               fst (ScoringBase_initialize cb) = None
               \<and> name' (snd (ScoringBase_initialize cb)) = s)
          \<and> (scoring cb = ScoringPartial (Some n) \<longrightarrow>
               fst (ScoringBase_initialize cb) = None
               \<and> name' (snd (ScoringBase_initialize cb)) = n)
          \<and> (scoring cb = ScoringCallable (Some n) \<longrightarrow>
               fst (ScoringBase_initialize cb) = None
               \<and> name' (snd (ScoringBase_initialize cb)) = n))
       \<and> fst (EpochScoring_initialize ecb st) = fst (ScoringBase_initialize ecb)
       \<and> name' (fst (snd (EpochScoring_initialize ecb st))) = name' (snd (ScoringBase_initialize ecb))
       \<and> (BatchScoring_on_epoch_end cb net = (None, cb', net')
            \<and> history net \<noteq> []
            \<and> scored_batches (batches (last (history net))) (name' cb) \<noteq> []
            \<and> lower_is_better cb = Some l \<longrightarrow>
            (\<exists>v. cols (last (history net')) (name' cb) = Some (Num v)
               \<and> cols (last (history net')) (name' cb @ ''_best'')
                   = Some (Flag (if l then ext_less (Fin v) (best_score' cb)
                                 else ext_less (best_score' cb) (Fin v)))))
       \<and> (EpochScoring_on_epoch_end ecb net st dt dv = (None, ecb', net')
            \<and> EpochScoring_scoring_inputs ecb st dt dv = Inr (Some X, yt, yp)
            \<and> lower_is_better ecb = Some l \<longrightarrow>
            (\<exists>v. cols (last (history net')) (name' ecb) = Some (Num v)
               \<and> cols (last (history net')) (name' ecb @ ''_best'')
                   = Some (Flag (if l then ext_less (Fin v) (best_score' ecb)
                                 else ext_less (best_score' ecb) (Fin v)))))
       \<and> (k \<noteq> name' cb \<and> k \<noteq> name' cb @ ''_best'' \<longrightarrow>
            entries_under (history (snd (snd (BatchScoring_on_epoch_end cb net)))) k
              = entries_under (history net) k)
       \<and> (k \<noteq> name' ecb \<and> k \<noteq> name' ecb @ ''_best'' \<longrightarrow>
            entries_under (history (snd (snd (EpochScoring_on_epoch_end ecb net st dt dv)))) k
              = entries_under (history net) k)"
proof (intro conjI impI)
  assume n: "name cb = None"
  { assume "scoring cb = ScoringNone"
    with n have "ScoringBase_get_name cb = Inr ''score''" by (simp add: ScoringBase_get_name_def)
    from initialize_name [OF n this]
    show "fst (ScoringBase_initialize cb) = None"
      and "name' (snd (ScoringBase_initialize cb)) = ''score''" by simp_all }
  { assume "scoring cb = ScoringStr s"
    with n have "ScoringBase_get_name cb = Inr s" by (simp add: ScoringBase_get_name_def)
    from initialize_name [OF n this]
    show "fst (ScoringBase_initialize cb) = None"
      and "name' (snd (ScoringBase_initialize cb)) = s" by simp_all }
  { assume "scoring cb = ScoringPartial (Some n)"
    with n have "ScoringBase_get_name cb = Inr n" by (simp add: ScoringBase_get_name_def)
    from initialize_name [OF \<open>name cb = None\<close> this]
    show "fst (ScoringBase_initialize cb) = None"
      and "name' (snd (ScoringBase_initialize cb)) = n" by simp_all }
  { assume "scoring cb = ScoringCallable (Some n)"
    with n have "ScoringBase_get_name cb = Inr n" by (simp add: ScoringBase_get_name_def)
    from initialize_name [OF \<open>name cb = None\<close> this]
    show "fst (ScoringBase_initialize cb) = None"
      and "name' (snd (ScoringBase_initialize cb)) = n" by simp_all }
next
  show "fst (EpochScoring_initialize ecb st) = fst (ScoringBase_initialize ecb)"
    and "name' (fst (snd (EpochScoring_initialize ecb st))) = name' (snd (ScoringBase_initialize ecb))"
    using EpochScoring_initialize_name [of ecb st] by simp_all
next
  assume "BatchScoring_on_epoch_end cb net = (None, cb', net')
            \<and> history net \<noteq> []
            \<and> scored_batches (batches (last (history net))) (name' cb) \<noteq> []
            \<and> lower_is_better cb = Some l"
  then show "\<exists>v. cols (last (history net')) (name' cb) = Some (Num v)
               \<and> cols (last (history net')) (name' cb @ ''_best'')
                   = Some (Flag (if l then ext_less (Fin v) (best_score' cb)
                                 else ext_less (best_score' cb) (Fin v)))"
    using BatchScoring_on_epoch_end_best_key [of cb net cb' net' l] by blast
next
  assume "EpochScoring_on_epoch_end ecb net st dt dv = (None, ecb', net')
            \<and> EpochScoring_scoring_inputs ecb st dt dv = Inr (Some X, yt, yp)
            \<and> lower_is_better ecb = Some l"
  then show "\<exists>v. cols (last (history net')) (name' ecb) = Some (Num v)
               \<and> cols (last (history net')) (name' ecb @ ''_best'')
                   = Some (Flag (if l then ext_less (Fin v) (best_score' ecb)
                                 else ext_less (best_score' ecb) (Fin v)))"
    using EpochScoring_on_epoch_end_best_key [of ecb net st dt dv ecb' net' X yt yp l] by blast
next
  assume k: "k \<noteq> name' cb \<and> k \<noteq> name' cb @ ''_best''"
  obtain r c n where a: "BatchScoring_on_epoch_end cb net = (r, c, n)"
    by (cases "BatchScoring_on_epoch_end cb net")
  from BatchScoring_on_epoch_end_other_keys [OF a] k a
  show "entries_under (history (snd (snd (BatchScoring_on_epoch_end cb net)))) k
              = entries_under (history net) k" by simp
next
  assume k: "k \<noteq> name' ecb \<and> k \<noteq> name' ecb @ ''_best''"
  obtain r c n where a: "EpochScoring_on_epoch_end ecb net st dt dv = (r, c, n)"
    by (cases "EpochScoring_on_epoch_end ecb net st dt dv")
  from EpochScoring_on_epoch_end_other_keys [OF a] k a
  show "entries_under (history (snd (snd (EpochScoring_on_epoch_end ecb net st dt dv)))) k
              = entries_under (history net) k" by simp
qed


text \<open>The theorem at the four kinds of scoring specification and at one epoch end of
  each strategy, where the flag is recorded and the batch sizes are left alone.\<close>

theorem history_key_from_scoring_witness:
  "name' (snd (ScoringBase_initialize (valid_batch_scoring\<lparr>scoring := ScoringNone\<rparr>))) = ''score''
   \<and> name' (snd (ScoringBase_initialize (valid_batch_scoring\<lparr>scoring := ScoringStr ''accuracy''\<rparr>)))
       = ''accuracy''
   \<and> name' (snd (ScoringBase_initialize
                   (valid_batch_scoring\<lparr>scoring := ScoringPartial (Some ''f1_score'')\<rparr>)))
       = ''f1_score''
   \<and> name' (snd (ScoringBase_initialize
                   (valid_batch_scoring\<lparr>scoring := ScoringCallable (Some ''my_score'')\<rparr>)))
       = ''my_score''
   \<and> cols (last (history (snd (snd (BatchScoring_on_epoch_end valid_batch_scoring three_batches_net)))))
        ''my_score_best'' = Some (Flag True)
   \<and> cols (last (history (snd (snd (EpochScoring_on_epoch_end valid_epoch_scoring one_batch_net
        two_lists_store None (Some (Dataset (Some 0) (Some 0)))))))) ''my_score_best'' = Some (Flag True)
   \<and> entries_under (history (snd (snd (BatchScoring_on_epoch_end valid_batch_scoring three_batches_net))))
        ''valid_batch_size'' = [(None, [Some 2, Some 3, Some 5])]
   \<and> entries_under (history (snd (snd (EpochScoring_on_epoch_end valid_epoch_scoring one_batch_net
        two_lists_store None (Some (Dataset (Some 0) (Some 0))))))) ''valid_batch_size''
       = [(None, [None])]"
proof -
  note T = history_key_from_scoring
  have k: "''valid_batch_size'' \<noteq> name' valid_batch_scoring
             \<and> ''valid_batch_size'' \<noteq> name' valid_batch_scoring @ ''_best''"
    "''valid_batch_size'' \<noteq> name' valid_epoch_scoring
             \<and> ''valid_batch_size'' \<noteq> name' valid_epoch_scoring @ ''_best''"
    by (simp_all add: valid_batch_scoring_def valid_epoch_scoring_def)
  have e: "entries_under (history three_batches_net) ''valid_batch_size''
             = [(None, [Some 2, Some 3, Some 5])]"
    "entries_under (history one_batch_net) ''valid_batch_size'' = [(None, [None])]"
    by (simp_all add: entries_under_def three_batches_net_def one_batch_net_def)
  note T7 = T [where cb = valid_batch_scoring and net = three_batches_net
             and ecb = valid_epoch_scoring and k = "''valid_batch_size''",
             THEN conjunct2, THEN conjunct2, THEN conjunct2, THEN conjunct2, THEN conjunct2,
             THEN conjunct1, THEN mp, OF k(1)]
  note T8 = T [where cb = valid_batch_scoring and ecb = valid_epoch_scoring and net = one_batch_net
             and st = two_lists_store and dt = None and dv = "Some (Dataset (Some 0) (Some 0))"
             and k = "''valid_batch_size''",
             THEN conjunct2, THEN conjunct2, THEN conjunct2, THEN conjunct2, THEN conjunct2,
             THEN conjunct2, THEN mp, OF k(2)]
  from T7 e have 7: "entries_under (history (snd (snd (BatchScoring_on_epoch_end valid_batch_scoring
        three_batches_net)))) ''valid_batch_size'' = [(None, [Some 2, Some 3, Some 5])]" by simp
  from T8 e have 8: "entries_under (history (snd (snd (EpochScoring_on_epoch_end valid_epoch_scoring
        one_batch_net two_lists_store None (Some (Dataset (Some 0) (Some 0))))))) ''valid_batch_size''
       = [(None, [None])]" by simp
  have nm: "\<And>sp. name (valid_batch_scoring\<lparr>scoring := sp\<rparr>) = None"
    "\<And>sp. scoring (valid_batch_scoring\<lparr>scoring := sp\<rparr>) = sp"
    by (simp_all add: valid_batch_scoring_def)
  have 1: "name' (snd (ScoringBase_initialize (valid_batch_scoring\<lparr>scoring := ScoringNone\<rparr>))) = ''score''"
    using T [where cb = "valid_batch_scoring\<lparr>scoring := ScoringNone\<rparr>"
               and ecb = valid_epoch_scoring, THEN conjunct1] nm by simp
  have 2: "name' (snd (ScoringBase_initialize (valid_batch_scoring\<lparr>scoring := ScoringStr ''accuracy''\<rparr>)))
       = ''accuracy''"
    using T [where cb = "valid_batch_scoring\<lparr>scoring := ScoringStr ''accuracy''\<rparr>"
               and s = "''accuracy''" and ecb = valid_epoch_scoring, THEN conjunct1] nm by simp
  have 3: "name' (snd (ScoringBase_initialize
                   (valid_batch_scoring\<lparr>scoring := ScoringPartial (Some ''f1_score'')\<rparr>)))
       = ''f1_score''"
    using T [where cb = "valid_batch_scoring\<lparr>scoring := ScoringPartial (Some ''f1_score'')\<rparr>"
               and n = "''f1_score''" and ecb = valid_epoch_scoring, THEN conjunct1] nm by simp
  have 4: "name' (snd (ScoringBase_initialize
                   (valid_batch_scoring\<lparr>scoring := ScoringCallable (Some ''my_score'')\<rparr>)))
       = ''my_score''"
    using T [where cb = "valid_batch_scoring\<lparr>scoring := ScoringCallable (Some ''my_score'')\<rparr>"
               and n = "''my_score''" and ecb = valid_epoch_scoring, THEN conjunct1] nm by simp
  let ?rb = "BatchScoring_on_epoch_end valid_batch_scoring three_batches_net"
  have fb: "fst ?rb = None"
    by (simp add: BatchScoring_on_epoch_end_def three_batches_net_def valid_batch_scoring_def
     batch_values_def map_filter_simps BatchScoring_get_avg_score_def batch_pairs_def batch_pair_def
     unzip_pairs_def np_average_def ScoringBase_is_best_score_def record_epoch_def Let_def)
  then have rb: "?rb = (None, fst (snd ?rb), snd (snd ?rb))"
    by (metis prod.collapse)
  have hb: "history three_batches_net \<noteq> []"
    "scored_batches (batches (last (history three_batches_net))) (name' valid_batch_scoring) \<noteq> []"
    by (simp_all add: three_batches_net_def valid_batch_scoring_def scored_batches_def
          del: not_None_eq)
  have lb: "lower_is_better valid_batch_scoring = Some True" "best_score' valid_batch_scoring = PInf"
    "name' valid_batch_scoring = ''my_score''"
    by (simp_all add: valid_batch_scoring_def)
  let ?re = "EpochScoring_on_epoch_end valid_epoch_scoring one_batch_net
        two_lists_store None (Some (Dataset (Some 0) (Some 0)))"
  let ?X = "WholeDataset (Dataset (Some 0) (Some 0)) :: (nat, nat) xtest"
  have ie: "EpochScoring_scoring_inputs valid_epoch_scoring two_lists_store None
              (Some (Dataset (Some 0) (Some 0))) = Inr (Some ?X, None, [])"
    by (simp add: EpochScoring_scoring_inputs_def valid_epoch_scoring_def two_lists_store_def)
  have fe: "fst ?re = None"
    unfolding EpochScoring_on_epoch_end_def ie
    by (simp add: valid_epoch_scoring_def
     one_batch_net_def cache_net_infer_def EpochScoring_epoch_body_def
     ScoringBase_scoring_def const_scorer_def record_epoch_def ScoringBase_is_best_score_def)
  then have re: "?re = (None, fst (snd ?re), snd (snd ?re))"
    by (metis prod.collapse)
  have le: "lower_is_better valid_epoch_scoring = Some True" "best_score' valid_epoch_scoring = PInf"
    "name' valid_epoch_scoring = ''my_score''"
    by (simp_all add: valid_epoch_scoring_def)
  note T5 = T [where cb = valid_batch_scoring and net = three_batches_net
             and cb' = "fst (snd ?rb)" and net' = "snd (snd ?rb)" and l = True
             and ecb = valid_epoch_scoring, THEN conjunct2, THEN conjunct2, THEN conjunct2,
             THEN conjunct1, THEN mp, OF conjI [OF rb conjI [OF hb(1) conjI [OF hb(2) lb(1)]]]]
  have 5: "cols (last (history (snd (snd ?rb)))) ''my_score_best'' = Some (Flag True)"
    using T5 unfolding lb by auto
  note T6 = T [where cb = valid_batch_scoring and ecb = valid_epoch_scoring and net = one_batch_net
             and st = two_lists_store and dt = None and dv = "Some (Dataset (Some 0) (Some 0))"
             and ecb' = "fst (snd ?re)" and net' = "snd (snd ?re)" and l = True
             and X = ?X and yt = None and yp = "[]",
             THEN conjunct2, THEN conjunct2, THEN conjunct2, THEN conjunct2,
             THEN conjunct1, THEN mp, OF conjI [OF re conjI [OF ie le(1)]]]
  have 6: "cols (last (history (snd (snd ?re)))) ''my_score_best'' = Some (Flag True)"
    using T6 unfolding le by auto
  from 1 2 3 4 5 6 7 8 show ?thesis by (intro conjI)
qed

subsection \<open>The best-score tracker\<close>

lemma epoch_body_best:
  "EpochScoring_epoch_body cb X y n = ((r, cb'), n') \<Longrightarrow>
     cb' = cb \<or> (\<exists>s. ScoringBase_is_best_score cb s = Some True \<and> cb' = cb\<lparr>best_score' := Fin s\<rparr>)"
  by (auto simp: EpochScoring_epoch_body_def split: sum.splits prod.splits option.splits if_splits)

lemma EpochScoring_on_epoch_end_best:
  assumes "EpochScoring_on_epoch_end cb net st dt dv = (r, cb', net')"
  shows "cb' = cb \<or> (\<exists>s. ScoringBase_is_best_score cb s = Some True \<and> cb' = cb\<lparr>best_score' := Fin s\<rparr>)"
  using assms
proof (cases rule: EpochScoring_on_epoch_end_cases)
  case unchanged
  then show ?thesis by simp
next
  case (scored X yt yp n1)
  from epoch_body_best [OF scored(2)] show ?thesis .
qed

lemma BatchScoring_on_epoch_end_best:
  assumes "BatchScoring_on_epoch_end cb net = (r, cb', net')"
  shows "cb' = cb \<or> (\<exists>s. ScoringBase_is_best_score cb s = Some True \<and> cb' = cb\<lparr>best_score' := Fin s\<rparr>)"
  using assms
  by (auto simp: BatchScoring_on_epoch_end_def Let_def split: sum.splits option.splits if_splits)

text \<open>The run of the four epochs, evaluated.\<close>

lemma fed_init:
  "EpochScoring_initialize fed_epoch_scoring empty_store
     = (None, fed_epoch_scoring\<lparr>best_score' := PInf, name' := ''my_score'', y_trues' := 0, y_preds' := 1\<rparr>,
        \<lparr>cells = (\<lambda>r. []), next_ref = 2\<rparr>)"
  by (simp add: EpochScoring_initialize_def ScoringBase_initialize_def ScoringBase_get_name_def
        EpochScoring_initialize_cache_def new_list_def fed_epoch_scoring_def empty_store_def
        fun_eq_iff)

lemma fed_run:
  "EpochScoring_epochs 4
     (fed_epoch_scoring\<lparr>best_score' := PInf, name' := ''my_score'', y_trues' := 0, y_preds' := 1\<rparr>)
     fresh_net \<lparr>cells = (\<lambda>r. []), next_ref = 2\<rparr> None (Some (Dataset (Some 0) (Some 0)))
   = (e, cb, net, st) \<Longrightarrow>
   e = None \<and> best_score' cb = Fin 0.3
   \<and> entries_under (history net) ''my_score_best''
       = [(Some (Flag True), []), (Some (Flag True), []), (Some (Flag False), []), (Some (Flag False), [])]
   \<and> entries_under (history net) ''my_score''
       = [(Some (Num 0.5), []), (Some (Num 0.3), []), (Some (Num 0.4), []), (Some (Num 0.3), [])]"
  apply (simp add: numeral_eq_Suc)
  apply (simp add: EpochScoring_on_epoch_begin_def EpochScoring_initialize_cache_def new_list_def
     y_is_placeholder_def fed_epoch_scoring_def fresh_net_def Let_def new_epoch_def
     EpochScoring_on_epoch_end_def EpochScoring_scoring_inputs_def cache_net_infer_def
     EpochScoring_epoch_body_def ScoringBase_scoring_def fed_scores_scorer_def record_epoch_def
     ScoringBase_is_best_score_def entries_under_def)
  apply auto
  done


text \<open>
  Claim C4. \<^verbatim>\<open>_is_best_score\<close> returns \<^verbatim>\<open>None\<close> when \<^verbatim>\<open>lower_is_better\<close> is \<^verbatim>\<open>None\<close>,
  \<open>current < running_best\<close> when it is true and \<open>current > running_best\<close> otherwise, the
  comparisons being strict (and true against the initial infinity). \<^verbatim>\<open>initialize\<close> sets
  the running best of a lower-is-better strategy to plus infinity. An \<^verbatim>\<open>on_epoch_end\<close>
  changes the running best only when the tracker's result for the score is true, and
  then to that score. Consequently a lower-is-better \<^verbatim>\<open>EpochScoring\<close>, initialized and
  fed the epoch scores \<open>[0.5, 0.3, 0.4, 0.3]\<close>, records the is-best flags
  \<open>[True, True, False, False]\<close> and has the running best \<open>0.3\<close> after the fourth epoch.
\<close>

theorem best_score_tracker:
  fixes cb :: "('x, 'v, 'a, 'z) scoring_base_scheme" and ecb :: "('x, 'v, 'a) epoch_scoring"
    and net :: "('x, 'v) net"
  shows "(lower_is_better cb = None \<longrightarrow> ScoringBase_is_best_score cb current = None)
       \<and> (lower_is_better cb = Some True \<and> best_score' cb = Fin b \<longrightarrow>
            ScoringBase_is_best_score cb current = Some (current < b))
       \<and> (lower_is_better cb = Some True \<and> best_score' cb = PInf \<longrightarrow>
            ScoringBase_is_best_score cb current = Some True)
       \<and> (lower_is_better cb = Some False \<and> best_score' cb = Fin b \<longrightarrow>
            ScoringBase_is_best_score cb current = Some (current > b))
       \<and> (lower_is_better cb = Some False \<and> best_score' cb = MInf \<longrightarrow>
            ScoringBase_is_best_score cb current = Some True)
       \<and> (lower_is_better cb = Some True \<longrightarrow>
            best_score' (snd (ScoringBase_initialize cb)) = PInf)
       \<and> (lower_is_better ecb = Some True \<longrightarrow>
            best_score' (fst (snd (EpochScoring_initialize ecb st))) = PInf)
       \<and> (best_score' (fst (snd (EpochScoring_on_epoch_end ecb net st dt dv))) \<noteq> best_score' ecb \<longrightarrow>
            (\<exists>s. ScoringBase_is_best_score ecb s = Some True
               \<and> best_score' (fst (snd (EpochScoring_on_epoch_end ecb net st dt dv))) = Fin s))
       \<and> (best_score' (fst (snd (BatchScoring_on_epoch_end cb net))) \<noteq> best_score' cb \<longrightarrow>
            (\<exists>s. ScoringBase_is_best_score cb s = Some True
               \<and> best_score' (fst (snd (BatchScoring_on_epoch_end cb net))) = Fin s))
       \<and> (case EpochScoring_initialize fed_epoch_scoring empty_store of
            (e0, cb0, st0) \<Rightarrow>
              e0 = None \<and> lower_is_better cb0 = Some True \<and> best_score' cb0 = PInf
              \<and> (case EpochScoring_epochs 4 cb0 fresh_net st0 None (Some (Dataset (Some 0) (Some 0))) of
                    (e, cb4, net4, st4) \<Rightarrow>
                      e = None
                      \<and> entries_under (history net4) ''my_score''
                          = [(Some (Num 0.5), []), (Some (Num 0.3), []),
                             (Some (Num 0.4), []), (Some (Num 0.3), [])]
                      \<and> entries_under (history net4) ''my_score_best''
                          = [(Some (Flag True), []), (Some (Flag True), []),
                             (Some (Flag False), []), (Some (Flag False), [])]
                      \<and> best_score' cb4 = Fin 0.3))"
proof (intro conjI impI)
  show "lower_is_better cb = None \<Longrightarrow> ScoringBase_is_best_score cb current = None"
    and "lower_is_better cb = Some True \<and> best_score' cb = Fin b \<Longrightarrow>
            ScoringBase_is_best_score cb current = Some (current < b)"
    and "lower_is_better cb = Some True \<and> best_score' cb = PInf \<Longrightarrow>
            ScoringBase_is_best_score cb current = Some True"
    and "lower_is_better cb = Some False \<and> best_score' cb = Fin b \<Longrightarrow>
            ScoringBase_is_best_score cb current = Some (current > b)"
    and "lower_is_better cb = Some False \<and> best_score' cb = MInf \<Longrightarrow>
            ScoringBase_is_best_score cb current = Some True"
    by (simp_all add: ScoringBase_is_best_score_def)
next
  show "lower_is_better cb = Some True \<Longrightarrow> best_score' (snd (ScoringBase_initialize cb)) = PInf"
    by (simp add: ScoringBase_initialize_def Let_def split: sum.splits)
next
  show "lower_is_better ecb = Some True \<Longrightarrow>
          best_score' (fst (snd (EpochScoring_initialize ecb st))) = PInf"
    by (simp add: EpochScoring_initialize_def ScoringBase_initialize_def Let_def
          EpochScoring_initialize_cache_def split: sum.splits prod.splits)
next
  assume d: "best_score' (fst (snd (EpochScoring_on_epoch_end ecb net st dt dv))) \<noteq> best_score' ecb"
  obtain r cb' net' where a: "EpochScoring_on_epoch_end ecb net st dt dv = (r, cb', net')"
    by (cases "EpochScoring_on_epoch_end ecb net st dt dv")
  from EpochScoring_on_epoch_end_best [OF a] d a
  show "\<exists>s. ScoringBase_is_best_score ecb s = Some True
               \<and> best_score' (fst (snd (EpochScoring_on_epoch_end ecb net st dt dv))) = Fin s"
    by auto
next
  assume d: "best_score' (fst (snd (BatchScoring_on_epoch_end cb net))) \<noteq> best_score' cb"
  obtain r cb' net' where a: "BatchScoring_on_epoch_end cb net = (r, cb', net')"
    by (cases "BatchScoring_on_epoch_end cb net")
  from BatchScoring_on_epoch_end_best [OF a] d a
  show "\<exists>s. ScoringBase_is_best_score cb s = Some True
               \<and> best_score' (fst (snd (BatchScoring_on_epoch_end cb net))) = Fin s"
    by auto
next
  show "case EpochScoring_initialize fed_epoch_scoring empty_store of
            (e0, cb0, st0) \<Rightarrow>
              e0 = None \<and> lower_is_better cb0 = Some True \<and> best_score' cb0 = PInf
              \<and> (case EpochScoring_epochs 4 cb0 fresh_net st0 None (Some (Dataset (Some 0) (Some 0))) of
                    (e, cb4, net4, st4) \<Rightarrow>
                      e = None
                      \<and> entries_under (history net4) ''my_score''
                          = [(Some (Num 0.5), []), (Some (Num 0.3), []),
                             (Some (Num 0.4), []), (Some (Num 0.3), [])]
                      \<and> entries_under (history net4) ''my_score_best''
                          = [(Some (Flag True), []), (Some (Flag True), []),
                             (Some (Flag False), []), (Some (Flag False), [])]
                      \<and> best_score' cb4 = Fin 0.3)"
    unfolding fed_init using fed_run
    by (auto simp: fed_epoch_scoring_def split: prod.splits)
qed

text \<open>The theorem at concrete trackers: each comparison, the initial value, and one
  epoch end of each strategy that improves on plus infinity.\<close>

theorem best_score_tracker_witness:
  "ScoringBase_is_best_score (valid_batch_scoring\<lparr>lower_is_better := None\<rparr>) 0.3 = None
   \<and> ScoringBase_is_best_score (valid_batch_scoring\<lparr>best_score' := Fin 0.5\<rparr>) 0.3 = Some True
   \<and> ScoringBase_is_best_score (valid_batch_scoring\<lparr>best_score' := Fin 0.3\<rparr>) 0.3 = Some False
   \<and> ScoringBase_is_best_score valid_batch_scoring 0.3 = Some True
   \<and> ScoringBase_is_best_score
        (valid_batch_scoring\<lparr>lower_is_better := Some False, best_score' := Fin 0.5\<rparr>) 0.7 = Some True
   \<and> ScoringBase_is_best_score
        (valid_batch_scoring\<lparr>lower_is_better := Some False, best_score' := MInf\<rparr>) 0.7 = Some True
   \<and> best_score' (snd (ScoringBase_initialize (valid_batch_scoring\<lparr>best_score' := MInf\<rparr>))) = PInf
   \<and> best_score' (fst (snd (EpochScoring_initialize fed_epoch_scoring empty_store))) = PInf
   \<and> best_score' (fst (snd (BatchScoring_on_epoch_end valid_batch_scoring three_batches_net)))
        \<noteq> best_score' valid_batch_scoring
   \<and> (\<exists>s. ScoringBase_is_best_score valid_batch_scoring s = Some True
          \<and> best_score' (fst (snd (BatchScoring_on_epoch_end valid_batch_scoring three_batches_net)))
              = Fin s)
   \<and> best_score' (fst (snd (EpochScoring_on_epoch_end valid_epoch_scoring one_batch_net
        two_lists_store None (Some (Dataset (Some 0) (Some 0)))))) \<noteq> best_score' valid_epoch_scoring
   \<and> (\<exists>s. ScoringBase_is_best_score valid_epoch_scoring s = Some True
          \<and> best_score' (fst (snd (EpochScoring_on_epoch_end valid_epoch_scoring one_batch_net
                two_lists_store None (Some (Dataset (Some 0) (Some 0)))))) = Fin s)"
proof -
  note T = best_score_tracker
  have 1: "ScoringBase_is_best_score (valid_batch_scoring\<lparr>lower_is_better := None\<rparr>) 0.3 = None"
    using T [where cb = "valid_batch_scoring\<lparr>lower_is_better := None\<rparr>" and current = "0.3"
               and ecb = valid_epoch_scoring, THEN conjunct1]
    by simp
  have 2: "ScoringBase_is_best_score (valid_batch_scoring\<lparr>best_score' := Fin 0.5\<rparr>) 0.3 = Some True"
    using T [where cb = "valid_batch_scoring\<lparr>best_score' := Fin 0.5\<rparr>" and current = "0.3"
               and b = "0.5" and ecb = valid_epoch_scoring, THEN conjunct2, THEN conjunct1]
    by (simp add: valid_batch_scoring_def)
  have 3: "ScoringBase_is_best_score (valid_batch_scoring\<lparr>best_score' := Fin 0.3\<rparr>) 0.3 = Some False"
    using T [where cb = "valid_batch_scoring\<lparr>best_score' := Fin 0.3\<rparr>" and current = "0.3"
               and b = "0.3" and ecb = valid_epoch_scoring, THEN conjunct2, THEN conjunct1]
    by (simp add: valid_batch_scoring_def)
  have 4: "ScoringBase_is_best_score valid_batch_scoring 0.3 = Some True"
    using T [where cb = valid_batch_scoring and current = "0.3"
               and ecb = valid_epoch_scoring, THEN conjunct2, THEN conjunct2, THEN conjunct1]
    by (simp add: valid_batch_scoring_def)
  have 5: "ScoringBase_is_best_score
        (valid_batch_scoring\<lparr>lower_is_better := Some False, best_score' := Fin 0.5\<rparr>) 0.7 = Some True"
    using T [where cb = "valid_batch_scoring\<lparr>lower_is_better := Some False, best_score' := Fin 0.5\<rparr>"
               and current = "0.7" and b = "0.5"
               and ecb = valid_epoch_scoring, THEN conjunct2, THEN conjunct2, THEN conjunct2,
               THEN conjunct1]
    by simp
  have 6: "ScoringBase_is_best_score
        (valid_batch_scoring\<lparr>lower_is_better := Some False, best_score' := MInf\<rparr>) 0.7 = Some True"
    using T [where cb = "valid_batch_scoring\<lparr>lower_is_better := Some False, best_score' := MInf\<rparr>"
               and current = "0.7"
               and ecb = valid_epoch_scoring, THEN conjunct2, THEN conjunct2, THEN conjunct2,
               THEN conjunct2, THEN conjunct1]
    by simp
  have 7: "best_score' (snd (ScoringBase_initialize (valid_batch_scoring\<lparr>best_score' := MInf\<rparr>))) = PInf"
    using T [where cb = "valid_batch_scoring\<lparr>best_score' := MInf\<rparr>"
               and ecb = valid_epoch_scoring, THEN conjunct2, THEN conjunct2, THEN conjunct2,
               THEN conjunct2, THEN conjunct2, THEN conjunct1]
    by (simp add: valid_batch_scoring_def)
  have 8: "best_score' (fst (snd (EpochScoring_initialize fed_epoch_scoring empty_store))) = PInf"
    using T [where cb = valid_batch_scoring and st = empty_store
               and ecb = fed_epoch_scoring, THEN conjunct2, THEN conjunct2, THEN conjunct2,
               THEN conjunct2, THEN conjunct2, THEN conjunct2, THEN conjunct1]
    by (simp add: fed_epoch_scoring_def)
  have 9: "best_score' (fst (snd (BatchScoring_on_epoch_end valid_batch_scoring three_batches_net)))
        \<noteq> best_score' valid_batch_scoring"
    by (simp add: BatchScoring_on_epoch_end_def three_batches_net_def valid_batch_scoring_def
     batch_values_def map_filter_simps BatchScoring_get_avg_score_def batch_pairs_def batch_pair_def
     unzip_pairs_def np_average_def ScoringBase_is_best_score_def record_epoch_def Let_def)
  have 10: "\<exists>s. ScoringBase_is_best_score valid_batch_scoring s = Some True
          \<and> best_score' (fst (snd (BatchScoring_on_epoch_end valid_batch_scoring three_batches_net)))
              = Fin s"
    using T [where cb = valid_batch_scoring and net = three_batches_net
               and ecb = valid_epoch_scoring, THEN conjunct2, THEN conjunct2, THEN conjunct2,
               THEN conjunct2, THEN conjunct2, THEN conjunct2, THEN conjunct2, THEN conjunct2,
               THEN conjunct1, THEN mp, OF 9] .
  let ?X = "WholeDataset (Dataset (Some 0) (Some 0)) :: (nat, nat) xtest"
  have ie: "EpochScoring_scoring_inputs valid_epoch_scoring two_lists_store None
              (Some (Dataset (Some 0) (Some 0))) = Inr (Some ?X, None, [])"
    by (simp add: EpochScoring_scoring_inputs_def valid_epoch_scoring_def two_lists_store_def)
  have 11: "best_score' (fst (snd (EpochScoring_on_epoch_end valid_epoch_scoring one_batch_net
        two_lists_store None (Some (Dataset (Some 0) (Some 0)))))) \<noteq> best_score' valid_epoch_scoring"
    unfolding EpochScoring_on_epoch_end_def ie
    by (simp add: valid_epoch_scoring_def
     one_batch_net_def cache_net_infer_def EpochScoring_epoch_body_def
     ScoringBase_scoring_def const_scorer_def record_epoch_def ScoringBase_is_best_score_def)
  have 12: "\<exists>s. ScoringBase_is_best_score valid_epoch_scoring s = Some True
          \<and> best_score' (fst (snd (EpochScoring_on_epoch_end valid_epoch_scoring one_batch_net
                two_lists_store None (Some (Dataset (Some 0) (Some 0)))))) = Fin s"
    using T [where cb = valid_batch_scoring and net = one_batch_net and st = two_lists_store
               and dt = None and dv = "Some (Dataset (Some 0) (Some 0))"
               and ecb = valid_epoch_scoring, THEN conjunct2, THEN conjunct2, THEN conjunct2,
               THEN conjunct2, THEN conjunct2, THEN conjunct2, THEN conjunct2,
               THEN conjunct1, THEN mp, OF 11] .
  from 1 2 3 4 5 6 7 8 9 10 11 12 show ?thesis by (intro conjI)
qed

subsection \<open>Placeholder targets\<close>

lemma on_epoch_begin_result:
  "EpochScoring_on_epoch_begin cb st dt dv = (cb1, st1) \<Longrightarrow>
     cb1 = cb\<lparr>y_trues' := next_ref st, y_preds' := Suc (next_ref st),
              y_is_placeholder' := Some (y_is_placeholder (if on_train cb then dt else dv))\<rparr>
     \<and> st1 = st\<lparr>cells := (cells st)(next_ref st := [], Suc (next_ref st) := []),
               next_ref := Suc (Suc (next_ref st))\<rparr>"
  by (auto simp: EpochScoring_on_epoch_begin_def EpochScoring_initialize_cache_def new_list_def Let_def)

lemma batch_events_placeholder:
  "y_is_placeholder' cb = Some True \<Longrightarrow> y_trues' cb \<noteq> y_preds' cb \<Longrightarrow>
   EpochScoring_batch_events cb net st bs = (e, cb2, net2, st2) \<Longrightarrow>
     e = None \<and> cb2 = cb \<and> net2 = net \<and> cells st2 (y_trues' cb) = cells st (y_trues' cb)"
proof (induction bs arbitrary: st)
  case Nil
  then show ?case by simp
next
  case (Cons b bs)
  obtain y p t where b: "b = (y, p, t)" by (cases b)
  define st1 where "st1 = snd (snd (snd (EpochScoring_on_batch_end cb net st y p t)))"
  have s: "EpochScoring_on_batch_end cb net st y p t = (None, cb, net, st1)"
    and c: "cells st1 (y_trues' cb) = cells st (y_trues' cb)"
    unfolding st1_def using Cons.prems(1,2)
    by (simp_all add: EpochScoring_on_batch_end_def list_append_def)
  from Cons.prems(3) b s have "EpochScoring_batch_events cb net st1 bs = (e, cb2, net2, st2)"
    by simp
  from Cons.IH [OF Cons.prems(1,2) this] c show ?case by simp
qed

lemma scoring_inputs_placeholder:
  assumes ds: "(if on_train cb then dt else dv) = Some (Dataset X None)"
      and c: "use_caching cb \<longrightarrow> cells st (y_trues' cb) = []"
  shows "\<exists>Xo yp. EpochScoring_scoring_inputs cb st dt dv = Inr (Xo, None, yp)"
  using assms
  by (auto simp: EpochScoring_scoring_inputs_def Let_def)

text \<open>
  When the active dataset (the training dataset for a strategy with \<^verbatim>\<open>on_train\<close>, the
  validation dataset otherwise) is itself an instance of skorch's \<^verbatim>\<open>Dataset\<close> without
  \<open>y\<close>, the code collects no targets: after \<^verbatim>\<open>on_epoch_begin\<close> and any sequence \<open>bs\<close> of
  batch events of that epoch (so also after every prefix of it) no batch event has raised
  and the target cache is empty. At the end of the epoch the target value that
  \<^verbatim>\<open>on_epoch_end\<close> computes is \<^verbatim>\<open>None\<close>, and it is the value given to the scoring call
  (there is none when \<^verbatim>\<open>X_test\<close> is \<^verbatim>\<open>None\<close>).
\<close>

lemma placeholder_targets_of_Dataset_instance:
  fixes cb :: "('x, 'v, 'a) epoch_scoring" and net :: "('x, 'v) net"
  assumes ds: "(if on_train cb then dataset_train else dataset_valid) = Some (Dataset X None)"
      and started: "EpochScoring_on_epoch_begin cb st dataset_train dataset_valid = (cb1, st1)"
      and events: "EpochScoring_batch_events cb1 net st1 bs = (e, cb2, net2, st2)"
  shows "e = None
       \<and> cells st2 (y_trues' cb2) = []
       \<and> (\<exists>X_test y_pred.
             EpochScoring_scoring_inputs cb2 st2 dataset_train dataset_valid
               = Inr (X_test, None, y_pred)
             \<and> (\<forall>net3.
                   EpochScoring_on_epoch_end cb2 net3 st2 dataset_train dataset_valid
                     = (case X_test of
                          None \<Rightarrow> (None, cb2, net3)
                        | Some X_data \<Rightarrow>
                            (case cache_net_infer net3 (use_caching cb2) y_pred
                                    (EpochScoring_epoch_body cb2 X_data None) of
                               (Some e, (r, cb3), net4) \<Rightarrow> (Some e, cb3, net4)
                             | (None, (r, cb3), net4) \<Rightarrow> (r, cb3, net4)))))"
proof -
  note r = on_epoch_begin_result [OF started]
  from r ds have ph: "y_is_placeholder' cb1 = Some True" by (simp add: y_is_placeholder_def)
  from r have ne: "y_trues' cb1 \<noteq> y_preds' cb1" by simp
  from r have em: "cells st1 (y_trues' cb1) = []" by simp
  from batch_events_placeholder [OF ph ne events] em
  have 1: "e = None" and 2: "cb2 = cb1" and 3: "cells st2 (y_trues' cb2) = []" by simp_all
  from r 2 have "on_train cb2 = on_train cb" by simp
  with ds have "(if on_train cb2 then dataset_train else dataset_valid) = Some (Dataset X None)"
    by simp
  from scoring_inputs_placeholder [OF this, of st2] 3
  obtain X_test y_pred where i: "EpochScoring_scoring_inputs cb2 st2 dataset_train dataset_valid
               = Inr (X_test, None, y_pred)" by blast
  have "\<forall>net3.
                   EpochScoring_on_epoch_end cb2 net3 st2 dataset_train dataset_valid
                     = (case X_test of
                          None \<Rightarrow> (None, cb2, net3)
                        | Some X_data \<Rightarrow>
                            (case cache_net_infer net3 (use_caching cb2) y_pred
                                    (EpochScoring_epoch_body cb2 X_data None) of
                               (Some e, (r, cb3), net4) \<Rightarrow> (Some e, cb3, net4)
                             | (None, (r, cb3), net4) \<Rightarrow> (r, cb3, net4)))"
    unfolding EpochScoring_on_epoch_end_def i by (simp split: option.splits)
  with 1 3 i show ?thesis by blast
qed

text \<open>For example, in an epoch with three batch events, two of them of the strategy's
  phase, the target cache stays empty while the two predictions are collected.\<close>

lemma placeholder_targets_of_Dataset_instance_example:
  "(if on_train valid_epoch_scoring then None else Some (Dataset (Some 0) None))
      = Some (Dataset (Some (0::nat)) (None :: nat option))
   \<and> fst (EpochScoring_batch_events
        (fst (EpochScoring_on_epoch_begin valid_epoch_scoring two_lists_store None (Some (Dataset (Some 0) None))))
        one_batch_net
        (snd (EpochScoring_on_epoch_begin valid_epoch_scoring two_lists_store None (Some (Dataset (Some 0) None))))
        [(5, 6, False), (7, 8, True), (9, 10, False)]) = None
   \<and> cells (snd (snd (snd (EpochScoring_batch_events
        (fst (EpochScoring_on_epoch_begin valid_epoch_scoring two_lists_store None (Some (Dataset (Some 0) None))))
        one_batch_net
        (snd (EpochScoring_on_epoch_begin valid_epoch_scoring two_lists_store None (Some (Dataset (Some 0) None))))
        [(5, 6, False), (7, 8, True), (9, 10, False)])))) 2 = []
   \<and> cells (snd (snd (snd (EpochScoring_batch_events
        (fst (EpochScoring_on_epoch_begin valid_epoch_scoring two_lists_store None (Some (Dataset (Some 0) None))))
        one_batch_net
        (snd (EpochScoring_on_epoch_begin valid_epoch_scoring two_lists_store None (Some (Dataset (Some 0) None))))
        [(5, 6, False), (7, 8, True), (9, 10, False)])))) 3 = [6, 10]"
proof -
  let ?ds = "Some (Dataset (Some (0::nat)) (None :: nat option))"
  let ?b = "EpochScoring_on_epoch_begin valid_epoch_scoring two_lists_store None ?ds"
  let ?r = "EpochScoring_batch_events (fst ?b) one_batch_net (snd ?b)
              [(5, 6, False), (7, 8, True), (9, 10, False)]"
  have ds: "(if on_train valid_epoch_scoring then None else ?ds) = ?ds"
    by (simp add: valid_epoch_scoring_def)
  have b: "?b = (fst ?b, snd ?b)" by simp
  have r: "?r = (fst ?r, fst (snd ?r), fst (snd (snd ?r)), snd (snd (snd ?r)))" by simp
  note T = placeholder_targets_of_Dataset_instance [OF ds b r]
  have yt: "y_trues' (fst (snd ?r)) = 2"
    by (simp add: EpochScoring_on_epoch_begin_def EpochScoring_initialize_cache_def new_list_def
          valid_epoch_scoring_def two_lists_store_def EpochScoring_on_batch_end_def Let_def
          y_is_placeholder_def list_append_def)
  have yp: "cells (snd (snd (snd ?r))) 3 = [6, 10]"
    by (simp add: EpochScoring_on_epoch_begin_def EpochScoring_initialize_cache_def new_list_def
          valid_epoch_scoring_def two_lists_store_def EpochScoring_on_batch_end_def Let_def
          y_is_placeholder_def list_append_def)
  from T have "fst ?r = None" and "cells (snd (snd (snd ?r))) (y_trues' (fst (snd ?r))) = []"
    by blast+
  with yt yp ds show ?thesis by simp
qed

text \<open>
  Claim C6: for every epoch in which the active dataset declares no targets, the
  per-epoch strategy appends no target object to its target cache on any batch event of
  that epoch, and the target value it passes to scoring at epoch end is \<^verbatim>\<open>None\<close>. The code
  does not do this when the dataset declares no targets through a view: for the
  validation part of a split of a skorch dataset without \<open>y\<close>, the test of
  \<^verbatim>\<open>on_epoch_begin\<close>, \<^verbatim>\<open>isinstance(ds, Dataset) and ds.y is None\<close>, is false, the one batch
  event of the phase appends its target, and \<^verbatim>\<open>on_epoch_end\<close> hands the concatenated
  targets to the scoring call. The same dataset is a skorch dataset for
  \<^verbatim>\<open>is_skorch_dataset\<close>, which the other path of \<^verbatim>\<open>on_epoch_end\<close> uses: without caching the
  target value is \<^verbatim>\<open>None\<close>.
\<close>

theorem placeholder_targets_collected_through_Subset:
  "declares_no_targets split_placeholder_dataset
   \<and> is_skorch_dataset (Some split_placeholder_dataset)
   \<and> \<not> y_is_placeholder (Some split_placeholder_dataset)
   \<and> (case EpochScoring_on_epoch_begin valid_epoch_scoring two_lists_store None
               (Some split_placeholder_dataset) of
         (cb1, st1) \<Rightarrow>
           y_is_placeholder' cb1 = Some False
           \<and> (case EpochScoring_batch_events cb1 one_batch_net st1 [(5, 6, False)] of
                 (e, cb2, net2, st2) \<Rightarrow>
                   e = None
                   \<and> cells st2 (y_trues' cb2) = [5]
                   \<and> EpochScoring_scoring_inputs cb2 st2 None (Some split_placeholder_dataset)
                       = Inr (Some (WholeDataset split_placeholder_dataset), Some [5], [6])
                   \<and> EpochScoring_scoring_inputs (cb2\<lparr>use_caching := False\<rparr>) st2 None
                         (Some split_placeholder_dataset)
                       = Inr (Some (Data 0), None, [])))"
  by (simp add: split_placeholder_dataset_def y_is_placeholder_def
        EpochScoring_on_epoch_begin_def EpochScoring_initialize_cache_def new_list_def
        valid_epoch_scoring_def two_lists_store_def EpochScoring_on_batch_end_def Let_def
        list_append_def EpochScoring_scoring_inputs_def extract_one_def)

subsection \<open>Separate caches\<close>

lemma separate_sym: "separate a b st \<Longrightarrow> separate b a st"
  by (auto simp: separate_def)

lemma initialize_cache_refs:
  "EpochScoring_initialize_cache cb st = (cb', st') \<Longrightarrow>
     y_trues' cb' = next_ref st \<and> y_preds' cb' = Suc (next_ref st)
     \<and> next_ref st' = Suc (Suc (next_ref st))
     \<and> (\<forall>r. r < next_ref st \<longrightarrow> cells st' r = cells st r)"
  by (auto simp: EpochScoring_initialize_cache_def new_list_def)

lemma initialize_refs:
  "EpochScoring_initialize cb st = (None, cb', st') \<Longrightarrow>
     y_trues' cb' = next_ref st \<and> y_preds' cb' = Suc (next_ref st)
     \<and> next_ref st' = Suc (Suc (next_ref st))"
  by (auto simp: EpochScoring_initialize_def split: prod.splits option.splits
           dest: initialize_cache_refs)

lemma notify_separate:
  assumes s: "separate a b st"
      and n: "EpochScoring_notify a net st ev = (e, a', net', st')"
  shows "separate a' b st'
       \<and> cells st' (y_trues' b) = cells st (y_trues' b)
       \<and> cells st' (y_preds' b) = cells st (y_preds' b)"
proof (cases ev)
  case (EpochBegin dt dv)
  obtain a1 st1 where i: "EpochScoring_initialize_cache a st = (a1, st1)"
    by (cases "EpochScoring_initialize_cache a st")
  note r = initialize_cache_refs [OF i]
  from n EpochBegin i have "y_trues' a' = y_trues' a1" "y_preds' a' = y_preds' a1" "st' = st1"
    by (auto simp: EpochScoring_on_epoch_begin_def Let_def)
  with r s show ?thesis by (auto simp: separate_def)
next
  case (BatchEnd y p t)
  with n s show ?thesis
    by (auto simp: EpochScoring_on_batch_end_def separate_def list_append_def Let_def
             split: if_splits option.splits)
next
  case (EpochEnd dt dv)
  obtain r c m where o: "EpochScoring_on_epoch_end a net st dt dv = (r, c, m)"
    by (cases "EpochScoring_on_epoch_end a net st dt dv")
  from EpochScoring_on_epoch_end_best [OF o]
  have "y_trues' c = y_trues' a \<and> y_preds' c = y_preds' a" by auto
  with n EpochEnd o s show ?thesis by (auto simp: separate_def)
next
  case TrainEnd
  obtain a1 st1 where i: "EpochScoring_initialize_cache a st = (a1, st1)"
    by (cases "EpochScoring_initialize_cache a st")
  note r = initialize_cache_refs [OF i]
  from n TrainEnd i have "a' = a1" "st' = st1"
    by (auto simp: EpochScoring_on_train_end_def)
  with r s show ?thesis by (auto simp: separate_def)
qed

lemma notify_two_separate:
  "separate a b st \<Longrightarrow> notify_two evs (a, b, net, st) = (a', b', net', st') \<Longrightarrow> separate a' b' st'"
proof (induction evs arbitrary: a b net st)
  case Nil
  then show ?case by simp
next
  case (Cons x evs)
  obtain first ev where x: "x = (first, ev)" by (cases x)
  show ?case
  proof (cases first)
    case True
    obtain e a1 n1 st1 where s: "EpochScoring_notify a net st ev = (e, a1, n1, st1)"
      by (cases "EpochScoring_notify a net st ev")
    from notify_separate [OF Cons.prems(1) s] have "separate a1 b st1" by simp
    moreover from Cons.prems(2) x True s have "notify_two evs (a1, b, n1, st1) = (a', b', net', st')"
      by simp
    ultimately show ?thesis by (rule Cons.IH)
  next
    case False
    obtain e b1 n1 st1 where s: "EpochScoring_notify b net st ev = (e, b1, n1, st1)"
      by (cases "EpochScoring_notify b net st ev")
    from notify_separate [OF separate_sym [OF Cons.prems(1)] s] have "separate a b1 st1"
      by (simp add: separate_sym)
    moreover from Cons.prems(2) x False s have "notify_two evs (a, b1, n1, st1) = (a', b', net', st')"
      by simp
    ultimately show ?thesis by (rule Cons.IH)
  qed
qed

text \<open>
  Claim C5. Two \<^verbatim>\<open>EpochScoring\<close> instances are initialized on the same run, which then
  hands any sequence \<open>evs\<close> of lifecycle events to the one or the other. In the state
  reached, whatever event one instance handles next (with any model), the prediction
  sequence and the target sequence of the other instance are exactly what they were:
  nothing is added, removed or reordered. Each instance's epoch cache is its own.
\<close>

theorem epoch_caches_are_separate:
  fixes a0 b0 :: "('x, 'v, 'a) epoch_scoring" and net n :: "('x, 'v) net"
  assumes ia: "EpochScoring_initialize a0 st0 = (None, a, st1)"
      and ib: "EpochScoring_initialize b0 st1 = (None, b, st2)"
      and run: "notify_two evs (a, b, net, st2) = (a', b', net', st')"
  shows "cells (snd (snd (snd (EpochScoring_notify a' n st' ev)))) (y_trues' b') = cells st' (y_trues' b')
       \<and> cells (snd (snd (snd (EpochScoring_notify a' n st' ev)))) (y_preds' b') = cells st' (y_preds' b')
       \<and> cells (snd (snd (snd (EpochScoring_notify b' n st' ev)))) (y_trues' a') = cells st' (y_trues' a')
       \<and> cells (snd (snd (snd (EpochScoring_notify b' n st' ev)))) (y_preds' a') = cells st' (y_preds' a')"
proof -
  from initialize_refs [OF ia] initialize_refs [OF ib]
  have "separate a b st2" by (simp add: separate_def)
  from notify_two_separate [OF this run] have s: "separate a' b' st'" .
  obtain e1 a1 n1 s1 where 1: "EpochScoring_notify a' n st' ev = (e1, a1, n1, s1)"
    by (cases "EpochScoring_notify a' n st' ev")
  obtain e2 b2 n2 s2 where 2: "EpochScoring_notify b' n st' ev = (e2, b2, n2, s2)"
    by (cases "EpochScoring_notify b' n st' ev")
  from notify_separate [OF s 1] notify_separate [OF separate_sym [OF s] 2] 1 2
  show ?thesis by simp
qed


text \<open>The example run, evaluated.\<close>

lemmas shared_run_defs =
  shared_run_def valid_instance_def train_instance_def store_after_first_def
  store_after_second_def train_epoch_scoring_def fresh_net_def empty_store_def
  EpochScoring_initialize_def ScoringBase_initialize_def ScoringBase_get_name_def
  EpochScoring_initialize_cache_def new_list_def fed_epoch_scoring_def
  EpochScoring_on_epoch_begin_def EpochScoring_on_batch_end_def y_is_placeholder_def
  list_append_def Let_def

lemma shared_run_value:
  "y_trues' (fst shared_run) = 4 \<and> y_preds' (fst shared_run) = 5
   \<and> y_trues' (fst (snd shared_run)) = 6 \<and> y_preds' (fst (snd shared_run)) = 7
   \<and> map (cells (snd (snd (snd shared_run)))) [4, 5, 6, 7] = [[1], [2], [3], [4]]
   \<and> use_caching (fst shared_run) \<and> \<not> on_train (fst shared_run)
   \<and> y_is_placeholder' (fst shared_run) = Some False"
  by (simp add: shared_run_defs)

text \<open>The theorem at the two example instances: a further validation batch extends the
  caches of the validation instance and leaves those of the training instance alone.\<close>

theorem epoch_caches_are_separate_witness:
  "EpochScoring_initialize fed_epoch_scoring empty_store = (None, valid_instance, store_after_first)
   \<and> EpochScoring_initialize train_epoch_scoring store_after_first
       = (None, train_instance, store_after_second)
   \<and> (case shared_run of
         (a', b', net', st') \<Rightarrow>
           map (cells st') [y_trues' a', y_preds' a', y_trues' b', y_preds' b'] = [[1], [2], [3], [4]]
           \<and> (case EpochScoring_notify a' net' st' (BatchEnd 5 6 False) of
                 (e, a'', net'', st'') \<Rightarrow>
                   map (cells st'') [y_trues' a'', y_preds' a'', y_trues' b', y_preds' b']
                     = [[1, 5], [2, 6], [3], [4]]))"
proof -
  have ia: "EpochScoring_initialize fed_epoch_scoring empty_store = (None, valid_instance, store_after_first)"
    by (simp add: shared_run_defs)
  have ib: "EpochScoring_initialize train_epoch_scoring store_after_first
       = (None, train_instance, store_after_second)"
    by (simp add: shared_run_defs)
  obtain a' b' net' st' where r: "shared_run = (a', b', net', st')"
    by (cases shared_run) auto
  then have run: "notify_two
       [(True, EpochBegin None None), (False, EpochBegin None None),
        (True, BatchEnd 1 2 False), (False, BatchEnd 3 4 True)]
       (valid_instance, train_instance, fresh_net, store_after_second) = (a', b', net', st')"
    by (simp add: shared_run_def)
  from shared_run_value [unfolded r]
  have v: "y_trues' a' = 4" "y_preds' a' = 5" "y_trues' b' = 6" "y_preds' b' = 7"
    "cells st' 4 = [1]" "cells st' 5 = [2]" "cells st' 6 = [3]" "cells st' 7 = [4]"
    by simp_all
  obtain e a'' net'' st'' where s: "EpochScoring_notify a' net' st' (BatchEnd 5 6 False) = (e, a'', net'', st'')"
    by (cases "EpochScoring_notify a' net' st' (BatchEnd 5 6 False)") auto
  from epoch_caches_are_separate [OF ia ib run, of net' "BatchEnd 5 6 False"] s v
  have other: "cells st'' 6 = [3]" "cells st'' 7 = [4]" by simp_all
  from shared_run_value [unfolded r]
  have "use_caching a' \<and> on_train a' = False \<and> y_is_placeholder' a' = Some False"
    by simp
  with s v have own: "y_trues' a'' = 4" "y_preds' a'' = 5" "cells st'' 4 = [1, 5]" "cells st'' 5 = [2, 6]"
    by (auto simp: EpochScoring_on_batch_end_def list_append_def)
  from ia ib s v other own show ?thesis unfolding r by simp
qed

end
